theory Spec2Isabelle
  imports Main "HOL-Library.Word" "HOL-Library.Char_ord" "HOL-Library.List_Lexorder"
begin

unbundle bit_operations_syntax

section \<open>Go strings and the library functions the signer calls\<close>

text \<open>
  A Go string is a sequence of bytes; \<open>string\<close> (a list of 8-bit characters) is the same
  thing. \<open>byte_of c\<close> is the numeric value of the byte, as Go's comparisons
  \<^verbatim>\<open>'a' <= c && c <= 'z'\<close> read it. Sorting strings (\<^verbatim>\<open>sort.Strings\<close>) compares byte-wise,
  which is the lexicographic order on \<open>char list\<close>.
\<close>

definition byte_of :: "char \<Rightarrow> nat" where
  "byte_of c = of_char c"

subsection \<open>Package strings\<close>

text \<open>\<^verbatim>\<open>strings.Cut(s, sep)\<close> for a one-byte separator: the text before the first separator, the
  text after it, and whether it was found.\<close>

fun strings_Cut :: "string \<Rightarrow> char \<Rightarrow> string \<times> string \<times> bool" where
  "strings_Cut [] sep = ([], [], False)"
| "strings_Cut (c # cs) sep =
     (if c = sep then ([], cs, True)
      else (case strings_Cut cs sep of (b, a, found) \<Rightarrow> (c # b, a, found)))"

definition strings_Contains :: "string \<Rightarrow> char \<Rightarrow> bool" where
  "strings_Contains s c = (c \<in> set s)"

text \<open>\<^verbatim>\<open>strings.LastIndex(s, sep)\<close> for a one-byte separator; \<open>None\<close> is Go's \<open>-1\<close>.\<close>

fun strings_LastIndex :: "string \<Rightarrow> char \<Rightarrow> nat option" where
  "strings_LastIndex [] sep = None"
| "strings_LastIndex (c # cs) sep =
     (case strings_LastIndex cs sep of
        Some i \<Rightarrow> Some (Suc i)
      | None \<Rightarrow> (if c = sep then Some 0 else None))"

text \<open>\<^verbatim>\<open>strings.Index(s, substr)\<close>; \<open>None\<close> is Go's \<open>-1\<close>.\<close>

fun strings_Index :: "string \<Rightarrow> string \<Rightarrow> nat option" where
  "strings_Index [] sub = (if sub = [] then Some 0 else None)"
| "strings_Index (c # cs) sub =
     (if take (length sub) (c # cs) = sub then Some 0
      else map_option Suc (strings_Index cs sub))"

definition strings_HasPrefix :: "string \<Rightarrow> string \<Rightarrow> bool" where
  "strings_HasPrefix s p = (take (length p) s = p)"

definition strings_HasSuffix :: "string \<Rightarrow> string \<Rightarrow> bool" where
  "strings_HasSuffix s p = (length p \<le> length s \<and> drop (length s - length p) s = p)"

definition strings_Count :: "string \<Rightarrow> char \<Rightarrow> nat" where
  "strings_Count s c = length (filter (\<lambda>x. x = c) s)"

text \<open>\<^verbatim>\<open>strings.ToLower\<close> on the bytes a URL scheme can hold (ASCII letters, digits, \<open>+ - .\<close>):
  an upper-case ASCII letter moves down by 32, every other such byte stays.\<close>

definition lower_byte :: "char \<Rightarrow> char" where
  "lower_byte c = (if 65 \<le> byte_of c \<and> byte_of c \<le> 90 then char_of (byte_of c + 32) else c)"

definition strings_ToLower :: "string \<Rightarrow> string" where
  "strings_ToLower s = map lower_byte s"

text \<open>\<^verbatim>\<open>strings.Join(elems, sep)\<close>.\<close>

fun strings_Join :: "string list \<Rightarrow> string \<Rightarrow> string" where
  "strings_Join [] sep = []"
| "strings_Join [x] sep = x"
| "strings_Join (x # y # r) sep = x @ sep @ strings_Join (y # r) sep"

subsection \<open>Package strconv\<close>

text \<open>\<^verbatim>\<open>strconv.FormatInt(i, 10)\<close>: the digits come from the table \<^verbatim>\<open>"0123456789"\<close>, most
  significant first, after a minus sign for a negative number.\<close>

definition digits :: string where
  "digits = ''0123456789''"

fun formatBits :: "nat \<Rightarrow> string" where
  "formatBits n = (if n < 10 then [digits ! n] else formatBits (n div 10) @ [digits ! (n mod 10)])"

declare formatBits.simps [simp del]

definition strconv_FormatInt :: "int \<Rightarrow> string" where
  "strconv_FormatInt i = (if i < 0 then CHR ''-'' # formatBits (nat (- i)) else formatBits (nat i))"

subsection \<open>Errors\<close>

text \<open>
  Go's \<open>error\<close> values, as far as this package builds or meets them:
  \<^item> \<open>ErrorString s\<close> is \<^verbatim>\<open>errors.New(s)\<close>, or \<^verbatim>\<open>fmt.Errorf\<close> without \<^verbatim>\<open>%w\<close>;
  \<^item> \<open>WrapError p e\<close> is \<^verbatim>\<open>fmt.Errorf(p + "%w", e)\<close>: its text is \<open>p\<close> followed by the text of
    \<open>e\<close>, and \<^verbatim>\<open>errors.Unwrap\<close> gives \<open>e\<close> back;
  \<^item> \<open>EscapeError s\<close> and \<open>InvalidHostError s\<close> are net/url's error types of these names;
  \<^item> \<open>InvalidPortError p\<close> is \<^verbatim>\<open>fmt.Errorf("invalid port %q after host", p)\<close>;
  \<^item> \<open>URLError op url e\<close> is \<^verbatim>\<open>&url.Error{Op: op, URL: url, Err: e}\<close>, which unwraps to \<open>e\<close>.
\<close>

datatype error =
    ErrorString string
  | WrapError string error
  | EscapeError string
  | InvalidHostError string
  | InvalidPortError string
  | URLError string string error

fun Unwrap :: "error \<Rightarrow> error option" where
  "Unwrap (WrapError p e) = Some e"
| "Unwrap (URLError opn u e) = Some e"
| "Unwrap _ = None"

text \<open>The chain \<^verbatim>\<open>errors.Is\<close> and \<^verbatim>\<open>errors.As\<close> walk: the error, what it wraps, and so on.\<close>

fun error_chain :: "error \<Rightarrow> error list" where
  "error_chain (WrapError p e) = WrapError p e # error_chain e"
| "error_chain (URLError opn u e) = URLError opn u e # error_chain e"
| "error_chain e = [e]"

subsection \<open>Package net/url: escaping\<close>

datatype encoding =
    encodePath | encodePathSegment | encodeHost | encodeZone
  | encodeUserPassword | encodeQueryComponent | encodeFragment

definition upperhex :: string where
  "upperhex = ''0123456789ABCDEF''"

definition ishex :: "char \<Rightarrow> bool" where
  "ishex c = (let n = byte_of c in
     (48 \<le> n \<and> n \<le> 57) \<or> (97 \<le> n \<and> n \<le> 102) \<or> (65 \<le> n \<and> n \<le> 70))"

definition unhex :: "char \<Rightarrow> nat" where
  "unhex c = (let n = byte_of c in
     if 48 \<le> n \<and> n \<le> 57 then n - 48
     else if 97 \<le> n \<and> n \<le> 102 then n - 97 + 10
     else if 65 \<le> n \<and> n \<le> 70 then n - 65 + 10
     else 0)"

definition is_alnum :: "char \<Rightarrow> bool" where
  "is_alnum c = (let n = byte_of c in
     (97 \<le> n \<and> n \<le> 122) \<or> (65 \<le> n \<and> n \<le> 90) \<or> (48 \<le> n \<and> n \<le> 57))"

text \<open>\<^verbatim>\<open>shouldEscape(c, mode)\<close>, case by case as in net/url.\<close>

definition shouldEscape :: "char \<Rightarrow> encoding \<Rightarrow> bool" where
  "shouldEscape c mode =
    (if is_alnum c then False
     else if (mode = encodeHost \<or> mode = encodeZone) \<and> c \<in> set ''!$&'()*+,;=:[]<>\"'' then False
     else if c \<in> set ''-_.~'' then False
     else if c \<in> set ''$&+,/:;=?@'' \<and> mode = encodePath then c = CHR ''?''
     else if c \<in> set ''$&+,/:;=?@'' \<and> mode = encodePathSegment then c \<in> set ''/;,?''
     else if c \<in> set ''$&+,/:;=?@'' \<and> mode = encodeUserPassword then c \<in> set ''@/?:''
     else if c \<in> set ''$&+,/:;=?@'' \<and> mode = encodeQueryComponent then True
     else if c \<in> set ''$&+,/:;=?@'' \<and> mode = encodeFragment then False
     else if mode = encodeFragment \<and> c \<in> set ''!()*'' then False
     else True)"

definition escape_byte :: "encoding \<Rightarrow> char \<Rightarrow> string" where
  "escape_byte mode c =
    (if c = CHR '' '' \<and> mode = encodeQueryComponent then ''+''
     else if shouldEscape c mode
       then [CHR ''%'', upperhex ! (byte_of c div 16), upperhex ! (byte_of c mod 16)]
     else [c])"

definition escape :: "string \<Rightarrow> encoding \<Rightarrow> string" where
  "escape s mode = concat (map (escape_byte mode) s)"

text \<open>
  \<^verbatim>\<open>unescape(s, mode)\<close> makes two passes. The first (\<open>unescape_check\<close>) looks for a malformed
  or forbidden escape and returns the error; the second (\<open>unescape_bytes\<close>) decodes.
\<close>

fun unescape_check :: "string \<Rightarrow> encoding \<Rightarrow> error option" where
  "unescape_check [] mode = None"
| "unescape_check (c # cs) mode =
    (if c = CHR ''%'' then
       (case cs of
          h1 # h2 # r \<Rightarrow>
            if \<not> ishex h1 \<or> \<not> ishex h2 then Some (EscapeError (take 3 (c # cs)))
            else if mode = encodeHost \<and> unhex h1 < 8 \<and> [c, h1, h2] \<noteq> ''%25''
              then Some (EscapeError [c, h1, h2])
            else if mode = encodeZone \<and> [c, h1, h2] \<noteq> ''%25''
                    \<and> char_of (16 * unhex h1 + unhex h2) \<noteq> CHR '' ''
                    \<and> shouldEscape (char_of (16 * unhex h1 + unhex h2)) encodeHost
              then Some (EscapeError [c, h1, h2])
            else unescape_check r mode
        | _ \<Rightarrow> Some (EscapeError (take 3 (c # cs))))
     else if c = CHR ''+'' then unescape_check cs mode
     else if (mode = encodeHost \<or> mode = encodeZone) \<and> byte_of c < 128 \<and> shouldEscape c encodeHost
       then Some (InvalidHostError [c])
     else unescape_check cs mode)"

fun unescape_bytes :: "string \<Rightarrow> encoding \<Rightarrow> string" where
  "unescape_bytes [] mode = []"
| "unescape_bytes (c # cs) mode =
    (if c = CHR ''%'' then
       (case cs of
          h1 # h2 # r \<Rightarrow> char_of (16 * unhex h1 + unhex h2) # unescape_bytes r mode
        | _ \<Rightarrow> [])
     else if c = CHR ''+'' then
       (if mode = encodeQueryComponent then CHR '' '' else CHR ''+'') # unescape_bytes cs mode
     else c # unescape_bytes cs mode)"

definition unescape :: "string \<Rightarrow> encoding \<Rightarrow> string \<times> error option" where
  "unescape s mode =
    (case unescape_check s mode of
       Some e \<Rightarrow> ([], Some e)
     | None \<Rightarrow> (unescape_bytes s mode, None))"

definition QueryEscape :: "string \<Rightarrow> string" where
  "QueryEscape s = escape s encodeQueryComponent"

definition QueryUnescape :: "string \<Rightarrow> string \<times> error option" where
  "QueryUnescape s = unescape s encodeQueryComponent"

subsection \<open>Package net/url: query values\<close>

text \<open>
  \<^verbatim>\<open>url.Values\<close> is \<^verbatim>\<open>map[string][]string\<close>. The model is an association list with one entry
  per key; the order of the entries carries no meaning (\<open>Values_Encode\<close> sorts the keys, as
  the Go method does).
\<close>

type_synonym Values = "(string \<times> string list) list"

definition Values_lookup :: "Values \<Rightarrow> string \<Rightarrow> string list" where
  "Values_lookup v k = (case map_of v k of None \<Rightarrow> [] | Some vs \<Rightarrow> vs)"

text \<open>\<^verbatim>\<open>v[key] = vs\<close>.\<close>

fun Values_store :: "Values \<Rightarrow> string \<Rightarrow> string list \<Rightarrow> Values" where
  "Values_store [] k vs = [(k, vs)]"
| "Values_store ((k', vs') # r) k vs =
     (if k' = k then (k, vs) # r else (k', vs') # Values_store r k vs)"

text \<open>\<^verbatim>\<open>v.Get(key)\<close>: the first value of the key, or the empty string.\<close>

definition Values_Get :: "Values \<Rightarrow> string \<Rightarrow> string" where
  "Values_Get v k = (case Values_lookup v k of [] \<Rightarrow> [] | x # _ \<Rightarrow> x)"

text \<open>\<^verbatim>\<open>v.Set(key, value)\<close> replaces whatever values the key had.\<close>

definition Values_Set :: "Values \<Rightarrow> string \<Rightarrow> string \<Rightarrow> Values" where
  "Values_Set v k x = Values_store v k [x]"

text \<open>\<^verbatim>\<open>v.Encode()\<close>: keys sorted, each value written as \<^verbatim>\<open>key=value\<close> with both sides
  query-escaped, pairs joined by \<^verbatim>\<open>&\<close>.\<close>

definition encode_key :: "Values \<Rightarrow> string \<Rightarrow> string list" where
  "encode_key v k = map (\<lambda>x. QueryEscape k @ ''='' @ QueryEscape x) (Values_lookup v k)"

definition Values_Encode :: "Values \<Rightarrow> string" where
  "Values_Encode v = strings_Join (concat (map (encode_key v) (sort (map fst v)))) ''&''"

text \<open>
  \<^verbatim>\<open>parseQuery(m, query)\<close>: the query is cut at each \<^verbatim>\<open>&\<close>; a piece holding a semicolon, or
  whose key or value does not unescape, is skipped and the first such error is remembered;
  an empty piece is skipped silently. \<open>split_amp\<close> is the sequence of pieces the loop sees.
\<close>

fun split_amp :: "string \<Rightarrow> string list" where
  "split_amp [] = []"
| "split_amp (c # cs) =
     (if c = CHR ''&'' then [] # split_amp cs
      else (case split_amp cs of [] \<Rightarrow> [[c]] | p # ps \<Rightarrow> (c # p) # ps))"

definition first_error :: "error option \<Rightarrow> error \<Rightarrow> error option" where
  "first_error err e = (case err of None \<Rightarrow> Some e | Some e0 \<Rightarrow> Some e0)"

fun parseQuery :: "Values \<Rightarrow> error option \<Rightarrow> string list \<Rightarrow> Values \<times> error option" where
  "parseQuery m err [] = (m, err)"
| "parseQuery m err (piece # rest) =
    (if strings_Contains piece CHR '';''
       then parseQuery m (Some (ErrorString ''invalid semicolon separator in query'')) rest
     else if piece = [] then parseQuery m err rest
     else
       (case strings_Cut piece CHR ''='' of (key, val, _) \<Rightarrow>
         (case QueryUnescape key of
            (_, Some e1) \<Rightarrow> parseQuery m (first_error err e1) rest
          | (key', None) \<Rightarrow>
             (case QueryUnescape val of
                (_, Some e1) \<Rightarrow> parseQuery m (first_error err e1) rest
              | (val', None) \<Rightarrow>
                  parseQuery (Values_store m key' (Values_lookup m key' @ [val'])) err rest))))"

definition ParseQuery :: "string \<Rightarrow> Values \<times> error option" where
  "ParseQuery query = parseQuery [] None (split_amp query)"

subsection \<open>Package net/url: the URL type\<close>

record Userinfo =
  username :: string
  password :: string
  passwordSet :: bool

record URL =
  Scheme :: string
  Opaque :: string
  User :: "Userinfo option"
  Host :: string
  Path :: string
  RawPath :: string
  OmitHost :: bool
  ForceQuery :: bool
  RawQuery :: string
  Fragment :: string
  RawFragment :: string

text \<open>The zero value \<^verbatim>\<open>new(URL)\<close>.\<close>

definition zeroURL :: URL where
  "zeroURL = \<lparr>Scheme = [], Opaque = [], User = None, Host = [], Path = [], RawPath = [],
     OmitHost = False, ForceQuery = False, RawQuery = [], Fragment = [], RawFragment = []\<rparr>"

text \<open>\<^verbatim>\<open>u.Query()\<close> parses \<open>RawQuery\<close> and drops the error: malformed pairs are discarded.\<close>

definition URL_Query :: "URL \<Rightarrow> Values" where
  "URL_Query u = fst (ParseQuery (RawQuery u))"

definition stringContainsCTLByte :: "string \<Rightarrow> bool" where
  "stringContainsCTLByte s = (\<exists>c \<in> set s. byte_of c < 32 \<or> byte_of c = 127)"

text \<open>\<^verbatim>\<open>getScheme(rawURL)\<close>: \<open>pre\<close> holds the bytes already passed, so \<open>pre = []\<close> is Go's
  \<open>i == 0\<close>; the result is the scheme, the rest, and an error.\<close>

fun getScheme_from :: "string \<Rightarrow> string \<Rightarrow> (string \<times> string) \<times> error option" where
  "getScheme_from pre [] = (([], pre), None)"
| "getScheme_from pre (c # cs) =
    (let n = byte_of c in
     if (97 \<le> n \<and> n \<le> 122) \<or> (65 \<le> n \<and> n \<le> 90) then getScheme_from (pre @ [c]) cs
     else if (48 \<le> n \<and> n \<le> 57) \<or> c \<in> set ''+-.'' then
       (if pre = [] then (([], c # cs), None) else getScheme_from (pre @ [c]) cs)
     else if c = CHR '':'' then
       (if pre = [] then (([], []), Some (ErrorString ''missing protocol scheme''))
        else ((pre, cs), None))
     else (([], pre @ c # cs), None))"

definition getScheme :: "string \<Rightarrow> (string \<times> string) \<times> error option" where
  "getScheme rawURL = getScheme_from [] rawURL"

definition validOptionalPort :: "string \<Rightarrow> bool" where
  "validOptionalPort port =
    (case port of
       [] \<Rightarrow> True
     | c # r \<Rightarrow> c = CHR '':'' \<and> (\<forall>b \<in> set r. 48 \<le> byte_of b \<and> byte_of b \<le> 57))"

definition validUserinfo :: "string \<Rightarrow> bool" where
  "validUserinfo s = (\<forall>r \<in> set s. is_alnum r \<or> r \<in> set ''-._:~!$&'()*+,;=%@'')"

definition parseHost :: "string \<Rightarrow> string \<times> error option" where
  "parseHost host =
    (if strings_HasPrefix host ''[''
     then
       (case strings_LastIndex host CHR '']'' of
          None \<Rightarrow> ([], Some (ErrorString ''missing ']' in host''))
        | Some i \<Rightarrow>
           if \<not> validOptionalPort (drop (i + 1) host) then ([], Some (InvalidPortError (drop (i + 1) host)))
           else
             (case strings_Index (take i host) ''%25'' of
                Some zone \<Rightarrow>
                  (case unescape (take zone host) encodeHost of
                     (_, Some e) \<Rightarrow> ([], Some e)
                   | (host1, None) \<Rightarrow>
                      (case unescape (drop zone (take i host)) encodeZone of
                         (_, Some e) \<Rightarrow> ([], Some e)
                       | (host2, None) \<Rightarrow>
                          (case unescape (drop i host) encodeHost of
                             (_, Some e) \<Rightarrow> ([], Some e)
                           | (host3, None) \<Rightarrow> (host1 @ host2 @ host3, None))))
              | None \<Rightarrow>
                  (case unescape host encodeHost of
                     (_, Some e) \<Rightarrow> ([], Some e)
                   | (h, None) \<Rightarrow> (h, None))))
     else
       (case strings_LastIndex host CHR '':'' of
          Some i \<Rightarrow>
            if \<not> validOptionalPort (drop i host) then ([], Some (InvalidPortError (drop i host)))
            else (case unescape host encodeHost of
                    (_, Some e) \<Rightarrow> ([], Some e)
                  | (h, None) \<Rightarrow> (h, None))
        | None \<Rightarrow>
            (case unescape host encodeHost of
               (_, Some e) \<Rightarrow> ([], Some e)
             | (h, None) \<Rightarrow> (h, None))))"

definition parseUserinfo :: "string \<Rightarrow> Userinfo option \<times> error option" where
  "parseUserinfo userinfo =
    (if \<not> validUserinfo userinfo then (None, Some (ErrorString ''net/url: invalid userinfo''))
     else if \<not> strings_Contains userinfo CHR '':'' then
       (case unescape userinfo encodeUserPassword of
          (_, Some e) \<Rightarrow> (None, Some e)
        | (u, None) \<Rightarrow> (Some \<lparr>username = u, password = [], passwordSet = False\<rparr>, None))
     else
       (case strings_Cut userinfo CHR '':'' of (uname, pw, _) \<Rightarrow>
         (case unescape uname encodeUserPassword of
            (_, Some e) \<Rightarrow> (None, Some e)
          | (u, None) \<Rightarrow>
             (case unescape pw encodeUserPassword of
                (_, Some e) \<Rightarrow> (None, Some e)
              | (p, None) \<Rightarrow> (Some \<lparr>username = u, password = p, passwordSet = True\<rparr>, None)))))"

text \<open>\<^verbatim>\<open>parseAuthority(authority)\<close>: the host is parsed first, then the user information
  before the last \<^verbatim>\<open>@\<close>, if there is one.\<close>

definition parseAuthority :: "string \<Rightarrow> (Userinfo option \<times> string) \<times> error option" where
  "parseAuthority authority =
    (case strings_LastIndex authority CHR ''@'' of
       None \<Rightarrow>
         (case parseHost authority of
            (_, Some e) \<Rightarrow> ((None, []), Some e)
          | (h, None) \<Rightarrow> ((None, h), None))
     | Some i \<Rightarrow>
         (case parseHost (drop (i + 1) authority) of
            (_, Some e) \<Rightarrow> ((None, []), Some e)
          | (h, None) \<Rightarrow>
             (case parseUserinfo (take i authority) of
                (_, Some e) \<Rightarrow> ((None, []), Some e)
              | (ui, None) \<Rightarrow> ((ui, h), None))))"

text \<open>\<^verbatim>\<open>u.setPath(p)\<close> and \<^verbatim>\<open>u.setFragment(f)\<close>: the raw form is kept only when it differs from
  the default escaping of the decoded form.\<close>

definition setPath :: "URL \<Rightarrow> string \<Rightarrow> URL \<times> error option" where
  "setPath u p =
    (case unescape p encodePath of
       (_, Some e) \<Rightarrow> (u, Some e)
     | (path, None) \<Rightarrow>
        (u\<lparr>Path := path, RawPath := (if p = escape path encodePath then [] else p)\<rparr>, None))"

definition setFragment :: "URL \<Rightarrow> string \<Rightarrow> URL \<times> error option" where
  "setFragment u f =
    (case unescape f encodeFragment of
       (_, Some e) \<Rightarrow> (u, Some e)
     | (frag, None) \<Rightarrow>
        (u\<lparr>Fragment := frag, RawFragment := (if f = escape frag encodeFragment then [] else f)\<rparr>, None))"

text \<open>
  \<^verbatim>\<open>parse(rawURL, viaRequest)\<close> with \<open>viaRequest = false\<close>, which is how \<^verbatim>\<open>url.Parse\<close> calls it.
  \<open>parse_query\<close> is the step that splits the query off, \<open>parse_rest\<close> everything after it.
\<close>

definition parse_query :: "URL \<Rightarrow> string \<Rightarrow> URL \<times> string" where
  "parse_query u rest =
    (if strings_HasSuffix rest ''?'' \<and> strings_Count rest CHR ''?'' = 1
     then (u\<lparr>ForceQuery := True\<rparr>, butlast rest)
     else (case strings_Cut rest CHR ''?'' of (r, q, _) \<Rightarrow> (u\<lparr>RawQuery := q\<rparr>, r)))"

definition parse_rest :: "URL \<Rightarrow> string \<Rightarrow> URL \<times> error option" where
  "parse_rest u rest =
    (if \<not> strings_HasPrefix rest ''/'' \<and> Scheme u \<noteq> [] then (u\<lparr>Opaque := rest\<rparr>, None)
     else if \<not> strings_HasPrefix rest ''/''
             \<and> strings_Contains (fst (strings_Cut rest CHR ''/'')) CHR '':''
       then (u, Some (ErrorString ''first path segment in URL cannot contain colon''))
     else if (Scheme u \<noteq> [] \<or> \<not> strings_HasPrefix rest ''///'') \<and> strings_HasPrefix rest ''//''
       then
         (case strings_Cut (drop 2 rest) CHR ''/'' of (authority, after, found) \<Rightarrow>
           (case parseAuthority authority of
              (_, Some e) \<Rightarrow> (u, Some e)
            | ((ui, h), None) \<Rightarrow>
                setPath (u\<lparr>User := ui, Host := h\<rparr>) (if found then CHR ''/'' # after else [])))
     else if Scheme u \<noteq> [] \<and> strings_HasPrefix rest ''/''
       then setPath (u\<lparr>OmitHost := True\<rparr>) rest
     else setPath u rest)"

definition parse :: "string \<Rightarrow> URL \<times> error option" where
  "parse rawURL =
    (if stringContainsCTLByte rawURL
       then (zeroURL, Some (ErrorString ''net/url: invalid control character in URL''))
     else if rawURL = ''*'' then (zeroURL\<lparr>Path := ''*''\<rparr>, None)
     else
       (case getScheme rawURL of
          (_, Some e) \<Rightarrow> (zeroURL, Some e)
        | ((scheme, rest), None) \<Rightarrow>
            (case parse_query (zeroURL\<lparr>Scheme := strings_ToLower scheme\<rparr>) rest of
               (u, rest') \<Rightarrow> parse_rest u rest')))"

text \<open>\<^verbatim>\<open>url.Parse(rawURL)\<close>: the fragment is cut off first; a failure comes back as a nil URL
  (\<open>None\<close>) and a \<^verbatim>\<open>*url.Error\<close> naming the operation and the text that did not parse.\<close>

definition url_Parse :: "string \<Rightarrow> URL option \<times> error option" where
  "url_Parse rawURL =
    (case strings_Cut rawURL CHR ''#'' of (u, frag, _) \<Rightarrow>
      (case parse u of
         (_, Some e) \<Rightarrow> (None, Some (URLError ''parse'' u e))
       | (url, None) \<Rightarrow>
           if frag = [] then (Some url, None)
           else (case setFragment url frag of
                   (_, Some e) \<Rightarrow> (None, Some (URLError ''parse'' rawURL e))
                 | (url', None) \<Rightarrow> (Some url', None))))"

subsection \<open>Package net/url: printing a URL\<close>

definition validEncoded :: "string \<Rightarrow> encoding \<Rightarrow> bool" where
  "validEncoded s mode =
    (\<forall>c \<in> set s. c \<in> set ''!$&'()*+,;=:@[]%'' \<or> \<not> shouldEscape c mode)"

definition EscapedPath :: "URL \<Rightarrow> string" where
  "EscapedPath u =
    (if RawPath u \<noteq> [] \<and> validEncoded (RawPath u) encodePath
        \<and> unescape (RawPath u) encodePath = (Path u, None)
       then RawPath u
     else if Path u = ''*'' then ''*''
     else escape (Path u) encodePath)"

definition EscapedFragment :: "URL \<Rightarrow> string" where
  "EscapedFragment u =
    (if RawFragment u \<noteq> [] \<and> validEncoded (RawFragment u) encodeFragment
        \<and> unescape (RawFragment u) encodeFragment = (Fragment u, None)
       then RawFragment u
     else escape (Fragment u) encodeFragment)"

definition Userinfo_String :: "Userinfo \<Rightarrow> string" where
  "Userinfo_String ui =
    escape (username ui) encodeUserPassword
      @ (if passwordSet ui then '':'' @ escape (password ui) encodeUserPassword else [])"

text \<open>\<^verbatim>\<open>u.String()\<close>, in the order the method writes: scheme, then either the opaque part or
  authority and path, then the query, then the fragment.\<close>

definition URL_authority :: "URL \<Rightarrow> string" where
  "URL_authority u =
    (if Scheme u \<noteq> [] \<or> Host u \<noteq> [] \<or> User u \<noteq> None then
       (if OmitHost u \<and> Host u = [] \<and> User u = None then []
        else
          (if Host u \<noteq> [] \<or> Path u \<noteq> [] \<or> User u \<noteq> None then ''//'' else [])
            @ (case User u of None \<Rightarrow> [] | Some ui \<Rightarrow> Userinfo_String ui @ ''@'')
            @ (if Host u \<noteq> [] then escape (Host u) encodeHost else []))
     else [])"

definition URL_hier :: "URL \<Rightarrow> string" where
  "URL_hier u =
    (let buf = (if Scheme u \<noteq> [] then Scheme u @ '':'' else []) @ URL_authority u;
         path = EscapedPath u;
         buf1 = buf @ (if path \<noteq> [] \<and> hd path \<noteq> CHR ''/'' \<and> Host u \<noteq> [] then ''/'' else []);
         buf2 = buf1 @ (if buf1 = [] \<and> strings_Contains (fst (strings_Cut path CHR ''/'')) CHR '':''
                        then ''./'' else [])
     in buf2 @ path)"

definition URL_String :: "URL \<Rightarrow> string" where
  "URL_String u =
    (if Opaque u \<noteq> [] then (if Scheme u \<noteq> [] then Scheme u @ '':'' else []) @ Opaque u
     else URL_hier u)
      @ (if ForceQuery u \<or> RawQuery u \<noteq> [] then CHR ''?'' # RawQuery u else [])
      @ (if Fragment u \<noteq> [] then CHR ''#'' # EscapedFragment u else [])"

subsection \<open>Package net/http: building a request\<close>

text \<open>The fields of \<^verbatim>\<open>http.Request\<close> that \<^verbatim>\<open>http.NewRequest(method, url, nil)\<close> fills from its
  arguments; the body is nil and the header map is empty.\<close>

record Request =
  Method :: string
  ReqURL :: URL
  ReqHost :: string

definition removeEmptyPort :: "string \<Rightarrow> string" where
  "removeEmptyPort host =
    (if (case (strings_LastIndex host CHR '':'', strings_LastIndex host CHR '']'') of
           (Some i, Some j) \<Rightarrow> i > j
         | (Some i, None) \<Rightarrow> True
         | (None, _) \<Rightarrow> False)
        \<and> strings_HasSuffix host '':''
     then butlast host else host)"

text \<open>\<^verbatim>\<open>http.NewRequest(http.MethodGet, url, nil)\<close>: the method is valid and the context is
  the background context, so those checks pass; the URL is parsed and an empty port is dropped
  from its host.\<close>

definition http_NewRequest_GET :: "string \<Rightarrow> Request option \<times> error option" where
  "http_NewRequest_GET url =
    (case url_Parse url of
       (Some u, None) \<Rightarrow>
         (Some \<lparr>Method = ''GET'', ReqURL = u\<lparr>Host := removeEmptyPort (Host u)\<rparr>,
                ReqHost = removeEmptyPort (Host u)\<rparr>, None)
     | (_, err) \<Rightarrow> (None, err))"

subsection \<open>Packages encoding/base64 and encoding/hex\<close>

definition encodeURL :: string where
  "encodeURL = ''ABCDEFGHIJKLMNOPQRSTUVWXYZabcdefghijklmnopqrstuvwxyz0123456789-_''"

text \<open>
  \<^verbatim>\<open>base64.RawURLEncoding.EncodeToString\<close>: three bytes become a 24-bit value and four
  characters of \<open>encodeURL\<close>; one or two remaining bytes become two or three characters, and
  the raw encoding writes no padding.
\<close>

definition sextet :: "nat \<Rightarrow> nat \<Rightarrow> char" where
  "sextet v k = encodeURL ! (v div 2 ^ k mod 64)"

fun RawURLEncoding_EncodeToString :: "string \<Rightarrow> string" where
  "RawURLEncoding_EncodeToString (a # b # c # r) =
     sextet (byte_of a * 65536 + byte_of b * 256 + byte_of c) 18
     # sextet (byte_of a * 65536 + byte_of b * 256 + byte_of c) 12
     # sextet (byte_of a * 65536 + byte_of b * 256 + byte_of c) 6
     # sextet (byte_of a * 65536 + byte_of b * 256 + byte_of c) 0
     # RawURLEncoding_EncodeToString r"
| "RawURLEncoding_EncodeToString [a, b] =
     [sextet (byte_of a * 65536 + byte_of b * 256) 18,
      sextet (byte_of a * 65536 + byte_of b * 256) 12,
      sextet (byte_of a * 65536 + byte_of b * 256) 6]"
| "RawURLEncoding_EncodeToString [a] =
     [sextet (byte_of a * 65536) 18, sextet (byte_of a * 65536) 12]"
| "RawURLEncoding_EncodeToString [] = []"

definition hextable :: string where
  "hextable = ''0123456789abcdef''"

text \<open>\<^verbatim>\<open>hex.EncodeToString\<close>: two lower-case digits for each byte, high nibble first.\<close>

definition hex_EncodeToString :: "8 word list \<Rightarrow> string" where
  "hex_EncodeToString bs = concat (map (\<lambda>v. [hextable ! (unat v div 16), hextable ! (unat v mod 16)]) bs)"

subsection \<open>Package crypto/sha256\<close>

text \<open>
  \<^verbatim>\<open>sha256.Sum256\<close>, after the package's portable block function: 32-bit words that wrap
  around, the round constants \<^verbatim>\<open>_K\<close>, the initial hash values, the message schedule
  \<^verbatim>\<open>w[16..63]\<close>, sixty-four rounds for each 64-byte block, and the padding that
  \<^verbatim>\<open>checkSum\<close> appends (a \<^verbatim>\<open>0x80\<close> byte, zeros up to 56 modulo 64, the length in bits as
  eight big-endian bytes).
\<close>

type_synonym u32 = "32 word"

text \<open>\<^verbatim>\<open>bits.RotateLeft32(x, -n)\<close>, a rotation to the right by \<open>n\<close>.\<close>

definition rotr :: "nat \<Rightarrow> u32 \<Rightarrow> u32" where
  "rotr n x = drop_bit n x OR push_bit (32 - n) x"

definition K256 :: "u32 list" where
  "K256 = [
   0x428A2F98, 0x71374491, 0xB5C0FBCF, 0xE9B5DBA5, 0x3956C25B, 0x59F111F1, 0x923F82A4, 0xAB1C5ED5,
   0xD807AA98, 0x12835B01, 0x243185BE, 0x550C7DC3, 0x72BE5D74, 0x80DEB1FE, 0x9BDC06A7, 0xC19BF174,
   0xE49B69C1, 0xEFBE4786, 0x0FC19DC6, 0x240CA1CC, 0x2DE92C6F, 0x4A7484AA, 0x5CB0A9DC, 0x76F988DA,
   0x983E5152, 0xA831C66D, 0xB00327C8, 0xBF597FC7, 0xC6E00BF3, 0xD5A79147, 0x06CA6351, 0x14292967,
   0x27B70A85, 0x2E1B2138, 0x4D2C6DFC, 0x53380D13, 0x650A7354, 0x766A0ABB, 0x81C2C92E, 0x92722C85,
   0xA2BFE8A1, 0xA81A664B, 0xC24B8B70, 0xC76C51A3, 0xD192E819, 0xD6990624, 0xF40E3585, 0x106AA070,
   0x19A4C116, 0x1E376C08, 0x2748774C, 0x34B0BCB5, 0x391C0CB3, 0x4ED8AA4A, 0x5B9CCA4F, 0x682E6FF3,
   0x748F82EE, 0x78A5636F, 0x84C87814, 0x8CC70208, 0x90BEFFFA, 0xA4506CEB, 0xBEF9A3F7, 0xC67178F2]"

definition initH :: "u32 list" where
  "initH = [0x6A09E667, 0xBB67AE85, 0x3C6EF372, 0xA54FF53A,
            0x510E527F, 0x9B05688C, 0x1F83D9AB, 0x5BE0CD19]"

text \<open>The first sixteen words of the schedule: the block read as big-endian 32-bit words.\<close>

fun be32 :: "8 word list \<Rightarrow> u32 list" where
  "be32 (a # b # c # d # r) =
     (push_bit 24 (ucast a) OR push_bit 16 (ucast b) OR push_bit 8 (ucast c) OR ucast d) # be32 r"
| "be32 _ = []"

text \<open>\<^verbatim>\<open>w[i] = t1 + w[i-7] + t2 + w[i-16]\<close> with \<open>t1\<close> from \<open>w[i-2]\<close> and \<open>t2\<close> from \<open>w[i-15]\<close>.\<close>

definition wnext :: "nat \<Rightarrow> u32 list \<Rightarrow> u32" where
  "wnext i w =
     (rotr 17 (w ! (i - 2)) XOR rotr 19 (w ! (i - 2)) XOR drop_bit 10 (w ! (i - 2)))
       + w ! (i - 7)
       + (rotr 7 (w ! (i - 15)) XOR rotr 18 (w ! (i - 15)) XOR drop_bit 3 (w ! (i - 15)))
       + w ! (i - 16)"

fun schedule :: "nat \<Rightarrow> u32 list \<Rightarrow> u32 list" where
  "schedule 0 w = w"
| "schedule (Suc n) w = schedule n (w @ [wnext (length w) w])"

text \<open>One round: \<open>t1\<close> and \<open>t2\<close> are computed from the working variables \<open>a \<dots> h\<close>, which then
  shift by one place.\<close>

definition step2 :: "u32 \<Rightarrow> u32 \<Rightarrow> u32 list \<Rightarrow> u32 list" where
  "step2 t1 t2 s = [t1 + t2, s ! 0, s ! 1, s ! 2, s ! 3 + t1, s ! 4, s ! 5, s ! 6]"

fun step :: "u32 \<Rightarrow> u32 \<Rightarrow> u32 list \<Rightarrow> u32 list" where
  "step k wi [a, b, c, d, e, f, g, h] =
     step2 (h + (rotr 6 e XOR rotr 11 e XOR rotr 25 e) + ((e AND f) XOR (NOT e AND g)) + k + wi)
           ((rotr 2 a XOR rotr 13 a XOR rotr 22 a) + ((a AND b) XOR (a AND c) XOR (b AND c)))
           [a, b, c, d, e, f, g, h]"
| "step k wi s = s"

fun rounds :: "u32 list \<Rightarrow> u32 list \<Rightarrow> u32 list \<Rightarrow> u32 list" where
  "rounds (k # ks) (wi # ws) s = rounds ks ws (step k wi s)"
| "rounds _ _ s = s"

definition blockGeneric :: "u32 list \<Rightarrow> 8 word list \<Rightarrow> u32 list" where
  "blockGeneric hs p = map2 (+) hs (rounds K256 (schedule 48 (be32 p)) hs)"

fun blocks :: "u32 list \<Rightarrow> 8 word list \<Rightarrow> u32 list" where
  "blocks hs p =
     (if 64 \<le> length p then blocks (blockGeneric hs (take 64 p)) (drop 64 p) else hs)"

declare blocks.simps [simp del]

definition be64 :: "nat \<Rightarrow> 8 word list" where
  "be64 n = map (\<lambda>i. of_nat (n div 2 ^ (8 * (7 - i)))) [0..<8]"

definition pad :: "8 word list \<Rightarrow> 8 word list" where
  "pad m =
     m @ [0x80]
       @ replicate ((if length m mod 64 < 56 then 56 - length m mod 64
                     else 64 + 56 - length m mod 64) - 1) 0
       @ be64 ((8 * length m) mod 2 ^ 64)"

definition unbe32 :: "u32 \<Rightarrow> 8 word list" where
  "unbe32 x = [ucast (drop_bit 24 x), ucast (drop_bit 16 x), ucast (drop_bit 8 x), ucast x]"

definition Sum256 :: "8 word list \<Rightarrow> 8 word list" where
  "Sum256 m = concat (map unbe32 (blocks initH (pad m)))"

section \<open>The signer package\<close>

subsection \<open>Constants\<close>

definition ActionType :: string where "ActionType = ''Action''"
definition ActionName :: string where "ActionName = ''kafka-cluster:Connect''"
definition SigningName :: string where "SigningName = ''kafka-cluster''"
definition UserAgentKey :: string where "UserAgentKey = ''User-Agent''"
definition LibName :: string where "LibName = ''aws-msk-iam-sasl-signer-go''"
definition ExpiresQueryKey :: string where "ExpiresQueryKey = ''X-Amz-Expires''"
definition DefaultSessionName :: string where "DefaultSessionName = ''MSKSASLDefaultSession''"
definition DefaultExpirySeconds :: int where "DefaultExpirySeconds = 900"

text \<open>\<^verbatim>\<open>fmt.Sprintf(endpointURLTemplate, region)\<close> with the template
  \<^verbatim>\<open>"kafka.%s.amazonaws.com"\<close>.\<close>

definition endpointURL :: "string \<Rightarrow> string" where
  "endpointURL region = ''kafka.'' @ region @ ''.amazonaws.com''"

subsection \<open>Pure helpers\<close>

text \<open>\<^verbatim>\<open>calculateSHA256Hash\<close>: the SHA-256 digest of the bytes of the input, in hexadecimal.\<close>

definition calculateSHA256Hash :: "string \<Rightarrow> string" where
  "calculateSHA256Hash input = hex_EncodeToString (Sum256 (map of_char input))"

text \<open>\<^verbatim>\<open>base64Encode\<close>: raw URL-safe base64 of the bytes of the signed URL.\<close>

definition base64Encode :: "string \<Rightarrow> string" where
  "base64Encode signedURL = RawURLEncoding_EncodeToString signedURL"

text \<open>\<^verbatim>\<open>buildRequest\<close>: the two query parameters, the URL with scheme, host and root path, and
  the GET request \<^verbatim>\<open>http.NewRequest\<close> makes of its text (or the error it returns).\<close>

definition buildQuery :: "int \<Rightarrow> Values" where
  "buildQuery expirySeconds =
     [(ActionType, [ActionName]), (ExpiresQueryKey, [strconv_FormatInt expirySeconds])]"

definition authURL :: "int \<Rightarrow> string \<Rightarrow> URL" where
  "authURL expirySeconds endpoint =
     zeroURL\<lparr>Host := endpoint, Scheme := ''https'', Path := ''/'',
             RawQuery := Values_Encode (buildQuery expirySeconds)\<rparr>"

definition buildRequest :: "int \<Rightarrow> string \<Rightarrow> Request option \<times> error option" where
  "buildRequest expirySeconds endpoint = http_NewRequest_GET (URL_String (authURL expirySeconds endpoint))"

text \<open>
  A Go call either returns its results or panics (here: a nil pointer is dereferenced).
\<close>

datatype 'a outcome = Returns 'a | Panics string

text \<open>
  The constant \<^verbatim>\<open>version\<close> is declared in a file of the package that is not among the
  sources at hand, and \<^verbatim>\<open>runtime.Version()\<close> is fixed by the Go toolchain that built the
  program; both are parameters here.
\<close>

record build =
  version :: string
  runtimeVersion :: string

definition userAgent :: "build \<Rightarrow> string" where
  "userAgent b = strings_Join [LibName, version b, runtimeVersion b] ''/''"

text \<open>\<^verbatim>\<open>addUserAgent\<close>. \<^verbatim>\<open>url.Parse\<close> returns a pointer and an error; the code tests the error
  only and then calls methods on the pointer.\<close>

definition addUserAgent :: "build \<Rightarrow> string \<Rightarrow> (string \<times> error option) outcome" where
  "addUserAgent b signedURL =
    (case url_Parse signedURL of
       (_, Some err) \<Rightarrow> Returns ([], Some (WrapError ''failed to parse signed url: '' err))
     | (None, None) \<Rightarrow> Panics ''invalid memory address or nil pointer dereference''
     | (Some parsedSignedURL, None) \<Rightarrow>
         Returns (URL_String (parsedSignedURL\<lparr>RawQuery :=
                    Values_Encode (Values_Set (URL_Query parsedSignedURL) UserAgentKey (userAgent b))\<rparr>),
                  None))"

subsection \<open>Options\<close>

record Credentials =
  AccessKeyID :: string
  SecretAccessKey :: string
  SessionToken :: string

record SignerOptions =
  Region :: "string option"
  AwsProfile :: "string option"
  RoleARN :: "string option"
  STSSessionName :: "string option"
  STSRegion :: "string option"
  AwsMaxRetries :: int
  AwsMaxBackOffMs :: int
  AWSCredentials :: "Credentials option"

definition credentialsArgumentsCount :: "SignerOptions \<Rightarrow> nat" where
  "credentialsArgumentsCount so =
     (if AwsProfile so \<noteq> None then 1 else 0)
       + (if RoleARN so \<noteq> None then 1 else 0)
       + (if AWSCredentials so \<noteq> None then 1 else 0)"

text \<open>\<^verbatim>\<open>(so *SignerOptions) Validate()\<close>; the receiver may be nil (\<open>None\<close>). The result is the
  error, \<open>None\<close> for nil.\<close>

definition Validate :: "SignerOptions option \<Rightarrow> error option" where
  "Validate so =
    (case so of
       None \<Rightarrow> Some (ErrorString ''region must be provided'')
     | Some opts \<Rightarrow>
         if Region opts = None then Some (ErrorString ''region must be provided'')
         else if credentialsArgumentsCount opts > 1
           then Some (ErrorString ''please provide only one of AWS profile, Role ARN and AWS Credentials'')
         else None)"

subsection \<open>The collaborators: SDK configuration, STS, the signer, the clock\<close>

text \<open>
  What the package calls outside itself is a parameter of the model. Each such call takes the
  state of the outside world \<open>'w\<close> (environment, files, network, clock) and returns its results
  with the new state. The context argument, which only carries cancellation to these calls,
  is part of that state. A credentials provider is the capability \<^verbatim>\<open>Retrieve\<close>.
\<close>

type_synonym instant = int

type_synonym 'w provider = "'w \<Rightarrow> (Credentials \<times> error option) \<times> 'w"

datatype LoadOption = WithRegion string | WithSharedConfigProfile string

record 'w Config =
  cfgRegion :: string
  cfgCredentials :: "'w provider"

record 'w STSClient =
  clientRegion :: string
  clientCredentials :: "'w provider"

text \<open>\<^verbatim>\<open>sts.NewFromConfig(cfg)\<close>: the client takes region and credentials from the configuration.\<close>

definition sts_NewFromConfig :: "'w Config \<Rightarrow> 'w STSClient" where
  "sts_NewFromConfig cfg = \<lparr>clientRegion = cfgRegion cfg, clientCredentials = cfgCredentials cfg\<rparr>"

text \<open>The two fields of \<^verbatim>\<open>sts.AssumeRoleInput\<close> the package sets (with \<^verbatim>\<open>aws.String\<close>, so never
  nil), and the pointer fields of the output it reads.\<close>

record AssumeRoleInput =
  RoleArn :: string
  RoleSessionName :: string

record sts_Credentials =
  stsAccessKeyId :: "string option"
  stsSecretAccessKey :: "string option"
  stsSessionToken :: "string option"

record AssumeRoleOutput =
  outCredentials :: "sts_Credentials option"

record 'w env =
  LoadDefaultConfig :: "LoadOption list \<Rightarrow> 'w \<Rightarrow> ('w Config \<times> error option) \<times> 'w"
  AssumeRole :: "'w STSClient \<Rightarrow> AssumeRoleInput \<Rightarrow> 'w \<Rightarrow> (AssumeRoleOutput option \<times> error option) \<times> 'w"
  PresignHTTP :: "Credentials \<Rightarrow> Request \<Rightarrow> string \<Rightarrow> string \<Rightarrow> string \<Rightarrow> instant \<Rightarrow> 'w
                    \<Rightarrow> (string \<times> error option) \<times> 'w"
  Now :: "'w \<Rightarrow> instant \<times> 'w"
  buildInfo :: build

text \<open>
  The state a call of the package runs in: the outside world, and the log of the outside calls
  made so far, each with the arguments the package passed.
\<close>

datatype call =
    CallLoadDefaultConfig "LoadOption list"
  | CallRetrieve
  | CallAssumeRole string AssumeRoleInput
  | CallNow
  | CallPresignHTTP Credentials Request string string string instant

record 'w state =
  world :: 'w
  calls :: "call list"

definition perform :: "call \<Rightarrow> ('w \<Rightarrow> 'a \<times> 'w) \<Rightarrow> 'w state \<Rightarrow> 'a \<times> 'w state" where
  "perform c f st =
    (case f (world st) of (r, w') \<Rightarrow> (r, st\<lparr>world := w', calls := calls st @ [c]\<rparr>))"

subsection \<open>Loading credentials\<close>

text \<open>\<^verbatim>\<open>loadCredentialsFromCredentialsProvider\<close> returns the address of what the provider
  returned, and the provider's error with it.\<close>

definition loadCredentialsFromCredentialsProvider ::
    "'w provider \<Rightarrow> 'w state \<Rightarrow> (Credentials option \<times> error option) \<times> 'w state" where
  "loadCredentialsFromCredentialsProvider credentialsProvider st =
    (case perform CallRetrieve credentialsProvider st of
       ((creds, err), st') \<Rightarrow> ((Some creds, err), st'))"

definition loadDefaultCredentials ::
    "'w env \<Rightarrow> string \<Rightarrow> 'w state \<Rightarrow> (Credentials option \<times> error option) \<times> 'w state" where
  "loadDefaultCredentials env region st =
    (case perform (CallLoadDefaultConfig [WithRegion region])
            (LoadDefaultConfig env [WithRegion region]) st of
       ((cfg, Some err), st') \<Rightarrow> ((None, Some (WrapError ''unable to load SDK config: '' err)), st')
     | ((cfg, None), st') \<Rightarrow> loadCredentialsFromCredentialsProvider (cfgCredentials cfg) st')"

definition loadCredentialsFromProfile ::
    "'w env \<Rightarrow> string \<Rightarrow> string \<Rightarrow> 'w state \<Rightarrow> (Credentials option \<times> error option) \<times> 'w state" where
  "loadCredentialsFromProfile env region awsProfile st =
    (case perform (CallLoadDefaultConfig [WithRegion region, WithSharedConfigProfile awsProfile])
            (LoadDefaultConfig env [WithRegion region, WithSharedConfigProfile awsProfile]) st of
       ((cfg, Some err), st') \<Rightarrow> ((None, Some (WrapError ''unable to load SDK config: '' err)), st')
     | ((cfg, None), st') \<Rightarrow> loadCredentialsFromCredentialsProvider (cfgCredentials cfg) st')"

text \<open>\<^verbatim>\<open>loadCredentialsFromRoleArn\<close> dereferences the output of \<^verbatim>\<open>AssumeRole\<close> and the three
  strings of its credentials; a nil among them is a panic.\<close>

definition credentialsOfOutput :: "AssumeRoleOutput option \<Rightarrow> Credentials outcome" where
  "credentialsOfOutput out =
    (case out of
       None \<Rightarrow> Panics ''invalid memory address or nil pointer dereference''
     | Some output \<Rightarrow>
        (case outCredentials output of
           None \<Rightarrow> Panics ''invalid memory address or nil pointer dereference''
         | Some c \<Rightarrow>
            (case (stsAccessKeyId c, stsSecretAccessKey c, stsSessionToken c) of
               (Some a, Some s, Some t) \<Rightarrow>
                 Returns \<lparr>AccessKeyID = a, SecretAccessKey = s, SessionToken = t\<rparr>
             | _ \<Rightarrow> Panics ''invalid memory address or nil pointer dereference'')))"

definition loadCredentialsFromRoleArn ::
    "'w env \<Rightarrow> string \<Rightarrow> string \<Rightarrow> string \<Rightarrow> 'w state
       \<Rightarrow> (Credentials option \<times> error option) outcome \<times> 'w state" where
  "loadCredentialsFromRoleArn env region roleArn stsSessionName st =
    (case perform (CallLoadDefaultConfig [WithRegion region])
            (LoadDefaultConfig env [WithRegion region]) st of
       ((cfg, Some err), st1) \<Rightarrow>
         (Returns (None, Some (WrapError ''unable to load SDK config: '' err)), st1)
     | ((cfg, None), st1) \<Rightarrow>
         (case perform
                 (CallAssumeRole (clientRegion (sts_NewFromConfig cfg))
                    \<lparr>RoleArn = roleArn, RoleSessionName = stsSessionName\<rparr>)
                 (AssumeRole env (sts_NewFromConfig cfg)
                    \<lparr>RoleArn = roleArn, RoleSessionName = stsSessionName\<rparr>) st1 of
            ((out, Some err), st2) \<Rightarrow>
              (Returns (None, Some (WrapError (''unable to assume role, '' @ roleArn @ '': '') err)), st2)
          | ((out, None), st2) \<Rightarrow>
              (case credentialsOfOutput out of
                 Panics m \<Rightarrow> (Panics m, st2)
               | Returns creds \<Rightarrow> (Returns (Some creds, None), st2))))"

subsection \<open>Signing and the token\<close>

text \<open>\<^verbatim>\<open>signRequest\<close> dereferences the credentials pointer, reads the clock once and calls the
  signer with the hash of the empty payload, the signing name, the region and that time.\<close>

definition signRequest ::
    "'w env \<Rightarrow> Request \<Rightarrow> string \<Rightarrow> Credentials option \<Rightarrow> 'w state
       \<Rightarrow> (string \<times> error option) outcome \<times> 'w state" where
  "signRequest env req region credentials st =
    (case credentials of
       None \<Rightarrow> (Panics ''invalid memory address or nil pointer dereference'', st)
     | Some creds \<Rightarrow>
        (case perform CallNow (Now env) st of
           (now, st1) \<Rightarrow>
             (case perform
                     (CallPresignHTTP creds req (calculateSHA256Hash []) SigningName region now)
                     (PresignHTTP env creds req (calculateSHA256Hash []) SigningName region now) st1 of
                ((signedURL, err), st2) \<Rightarrow> (Returns (signedURL, err), st2))))"

text \<open>\<^verbatim>\<open>constructAuthToken\<close>: build, sign, add the user agent, encode; the first error ends
  the call with an empty token.\<close>

definition constructAuthToken ::
    "'w env \<Rightarrow> string \<Rightarrow> Credentials option \<Rightarrow> 'w state
       \<Rightarrow> (string \<times> error option) outcome \<times> 'w state" where
  "constructAuthToken env region credentials st =
    (case buildRequest DefaultExpirySeconds (endpointURL region) of
       (_, Some err) \<Rightarrow>
         (Returns ([], Some (WrapError ''failed to build request for signing: '' err)), st)
     | (None, None) \<Rightarrow> (Panics ''invalid memory address or nil pointer dereference'', st)
     | (Some req, None) \<Rightarrow>
        (case signRequest env req region credentials st of
           (Panics m, st') \<Rightarrow> (Panics m, st')
         | (Returns (_, Some err), st') \<Rightarrow>
             (Returns ([], Some (WrapError ''failed to sign request with aws sig v4: '' err)), st')
         | (Returns (signedURL, None), st') \<Rightarrow>
            (case addUserAgent (buildInfo env) signedURL of
               Panics m \<Rightarrow> (Panics m, st')
             | Returns (_, Some err) \<Rightarrow>
                 (Returns ([], Some (WrapError ''failed to add user agent to the signed url: '' err)), st')
             | Returns (signedURLWithUserAgent, None) \<Rightarrow>
                 (Returns (base64Encode signedURLWithUserAgent, None), st'))))"

subsection \<open>The public entry points\<close>

definition GenerateAuthToken ::
    "'w env \<Rightarrow> string \<Rightarrow> 'w state \<Rightarrow> (string \<times> error option) outcome \<times> 'w state" where
  "GenerateAuthToken env region st =
    (case loadDefaultCredentials env region st of
       ((_, Some err), st') \<Rightarrow> (Returns ([], Some (WrapError ''failed to load credentials: '' err)), st')
     | ((credentials, None), st') \<Rightarrow> constructAuthToken env region credentials st')"

definition GenerateAuthTokenFromProfile ::
    "'w env \<Rightarrow> string \<Rightarrow> string \<Rightarrow> 'w state \<Rightarrow> (string \<times> error option) outcome \<times> 'w state" where
  "GenerateAuthTokenFromProfile env region awsProfile st =
    (case loadCredentialsFromProfile env region awsProfile st of
       ((_, Some err), st') \<Rightarrow> (Returns ([], Some (WrapError ''failed to load credentials: '' err)), st')
     | ((credentials, None), st') \<Rightarrow> constructAuthToken env region credentials st')"

definition GenerateAuthTokenFromRole ::
    "'w env \<Rightarrow> string \<Rightarrow> string \<Rightarrow> string \<Rightarrow> 'w state
       \<Rightarrow> (string \<times> error option) outcome \<times> 'w state" where
  "GenerateAuthTokenFromRole env region roleArn stsSessionName st =
    (case loadCredentialsFromRoleArn env region roleArn
            (if stsSessionName = [] then DefaultSessionName else stsSessionName) st of
       (Panics m, st') \<Rightarrow> (Panics m, st')
     | (Returns (_, Some err), st') \<Rightarrow>
         (Returns ([], Some (WrapError ''failed to load credentials: '' err)), st')
     | (Returns (credentials, None), st') \<Rightarrow> constructAuthToken env region credentials st')"

definition GenerateAuthTokenFromCredentialsProvider ::
    "'w env \<Rightarrow> string \<Rightarrow> 'w provider \<Rightarrow> 'w state
       \<Rightarrow> (string \<times> error option) outcome \<times> 'w state" where
  "GenerateAuthTokenFromCredentialsProvider env region credentialsProvider st =
    (case loadCredentialsFromCredentialsProvider credentialsProvider st of
       ((_, Some err), st') \<Rightarrow> (Returns ([], Some (WrapError ''failed to load credentials: '' err)), st')
     | ((credentials, None), st') \<Rightarrow> constructAuthToken env region credentials st')"

subsection \<open>One operation for the four strategies\<close>

text \<open>
  The four entry points differ in how they load credentials. \<open>strategy\<close> names the choice, so
  that a statement about every entry point can be made once: \<open>resolve\<close> is the loader an
  entry point calls (with the default session name filled in for a role), \<open>generate\<close> is the
  entry point itself.
\<close>

datatype 'w strategy =
    DefaultChain
  | NamedProfile string
  | AssumeRoleArn string string
  | ExternalProvider "'w provider"

definition resolve ::
    "'w env \<Rightarrow> string \<Rightarrow> 'w strategy \<Rightarrow> 'w state
       \<Rightarrow> (Credentials option \<times> error option) outcome \<times> 'w state" where
  "resolve env region strat st =
    (case strat of
       DefaultChain \<Rightarrow>
         (case loadDefaultCredentials env region st of (r, st') \<Rightarrow> (Returns r, st'))
     | NamedProfile awsProfile \<Rightarrow>
         (case loadCredentialsFromProfile env region awsProfile st of (r, st') \<Rightarrow> (Returns r, st'))
     | AssumeRoleArn roleArn stsSessionName \<Rightarrow>
         loadCredentialsFromRoleArn env region roleArn
           (if stsSessionName = [] then DefaultSessionName else stsSessionName) st
     | ExternalProvider credentialsProvider \<Rightarrow>
         (case loadCredentialsFromCredentialsProvider credentialsProvider st of
            (r, st') \<Rightarrow> (Returns r, st')))"

definition generate ::
    "'w env \<Rightarrow> string \<Rightarrow> 'w strategy \<Rightarrow> 'w state
       \<Rightarrow> (string \<times> error option) outcome \<times> 'w state" where
  "generate env region strat st =
    (case strat of
       DefaultChain \<Rightarrow> GenerateAuthToken env region st
     | NamedProfile awsProfile \<Rightarrow> GenerateAuthTokenFromProfile env region awsProfile st
     | AssumeRoleArn roleArn stsSessionName \<Rightarrow>
         GenerateAuthTokenFromRole env region roleArn stsSessionName st
     | ExternalProvider credentialsProvider \<Rightarrow>
         GenerateAuthTokenFromCredentialsProvider env region credentialsProvider st)"

text \<open>The outside calls that belong to signing.\<close>

fun is_signing_call :: "call \<Rightarrow> bool" where
  "is_signing_call CallNow = True"
| "is_signing_call (CallPresignHTTP c r h n g t) = True"
| "is_signing_call _ = False"

section \<open>Test doubles\<close>

text \<open>
  Collaborators with fixed answers, in the manner of the package's tests: a provider that
  returns given credentials, the SDK's anonymous provider (which always fails), a
  configuration loader that takes the region from its options, an STS that hands out
  temporary credentials, and a signer that appends signing parameters to the request's URL.
  The outside world is a clock.
\<close>

definition mockCreds :: Credentials where
  "mockCreds = \<lparr>AccessKeyID = ''MOCK-ACCESS-KEY'', SecretAccessKey = ''MOCK-SECRET-KEY'',
                SessionToken = ''MOCK-SESSION-TOKEN''\<rparr>"

definition MockCredentialsProvider :: "Credentials \<Rightarrow> instant provider" where
  "MockCredentialsProvider c w = ((c, None), w)"

definition AnonymousCredentials :: "instant provider" where
  "AnonymousCredentials w =
    ((\<lparr>AccessKeyID = [], SecretAccessKey = [], SessionToken = []\<rparr>,
      Some (ErrorString ''the AnonymousCredentials is not a valid credential provider'')), w)"

fun regionOf :: "LoadOption list \<Rightarrow> string" where
  "regionOf [] = []"
| "regionOf (WithRegion r # _) = r"
| "regionOf (_ # opts) = regionOf opts"

definition mockLoad :: "LoadOption list \<Rightarrow> instant \<Rightarrow> (instant Config \<times> error option) \<times> instant" where
  "mockLoad opts w =
    ((\<lparr>cfgRegion = regionOf opts, cfgCredentials = MockCredentialsProvider mockCreds\<rparr>, None), w)"

definition mockAssumeRole ::
    "instant STSClient \<Rightarrow> AssumeRoleInput \<Rightarrow> instant
       \<Rightarrow> (AssumeRoleOutput option \<times> error option) \<times> instant" where
  "mockAssumeRole client input w =
    ((Some \<lparr>outCredentials = Some \<lparr>stsAccessKeyId = Some ''ROLE-ACCESS-KEY'',
        stsSecretAccessKey = Some ''ROLE-SECRET-KEY'', stsSessionToken = Some ''ROLE-SESSION-TOKEN''\<rparr>\<rparr>,
      None), w)"

definition mockPresign ::
    "Credentials \<Rightarrow> Request \<Rightarrow> string \<Rightarrow> string \<Rightarrow> string \<Rightarrow> instant \<Rightarrow> instant
       \<Rightarrow> (string \<times> error option) \<times> instant" where
  "mockPresign creds req payloadHash service region now w =
    ((URL_String ((ReqURL req)\<lparr>RawQuery :=
        RawQuery (ReqURL req) @ ''&X-Amz-Algorithm=AWS4-HMAC-SHA256&X-Amz-Signature=00''\<rparr>), None), w)"

definition testBuild :: build where
  "testBuild = \<lparr>version = ''1.0.4'', runtimeVersion = ''go1.20''\<rparr>"

definition testEnv :: "instant env" where
  "testEnv = \<lparr>LoadDefaultConfig = mockLoad, AssumeRole = mockAssumeRole,
               PresignHTTP = mockPresign, Now = (\<lambda>w. (w, w)), buildInfo = testBuild\<rparr>"

text \<open>A signer that fails, and one that returns text that is no URL.\<close>

definition failingSignerEnv :: "instant env" where
  "failingSignerEnv =
     testEnv\<lparr>PresignHTTP := (\<lambda>c r h n g t w. (([], Some (ErrorString ''signing failed'')), w))\<rparr>"

definition brokenSignerEnv :: "instant env" where
  "brokenSignerEnv = testEnv\<lparr>PresignHTTP := (\<lambda>c r h n g t w. (('':invalidURL:'', None), w))\<rparr>"

text \<open>A configuration loader that fails, and an STS that refuses the role and names the
  session it was asked for.\<close>

definition failingLoadEnv :: "instant env" where
  "failingLoadEnv =
     testEnv\<lparr>LoadDefaultConfig := (\<lambda>opts w.
       ((\<lparr>cfgRegion = [], cfgCredentials = AnonymousCredentials\<rparr>,
         Some (ErrorString ''failed to load shared config'')), w))\<rparr>"

definition deniedRoleEnv :: "instant env" where
  "deniedRoleEnv =
     testEnv\<lparr>AssumeRole := (\<lambda>client input w.
       ((None, Some (ErrorString (''AccessDenied for session '' @ RoleSessionName input))), w))\<rparr>"

definition st0 :: "instant state" where
  "st0 = \<lparr>world = 1700000000, calls = []\<rparr>"

definition TestRegion :: string where "TestRegion = ''us-west-2''"
definition TestEndpoint :: string where "TestEndpoint = ''kafka.us-west-2.amazonaws.com''"

definition testRequest :: Request where
  "testRequest = \<lparr>Method = ''GET'',
        ReqURL = \<lparr>Scheme = ''https'', Opaque = [], User = None,
           Host = ''kafka.us-west-2.amazonaws.com'', Path = ''/'', RawPath = [],
           OmitHost = False, ForceQuery = False,
           RawQuery = ''Action=kafka-cluster%3AConnect&X-Amz-Expires=900'',
           Fragment = [], RawFragment = []\<rparr>,
        ReqHost = ''kafka.us-west-2.amazonaws.com''\<rparr>"

text \<open>The state after the default chain has been loaded, and after the signer has been called.\<close>

definition stLoaded :: "instant state" where
  "stLoaded = st0\<lparr>calls := [CallLoadDefaultConfig [WithRegion TestRegion], CallRetrieve]\<rparr>"

definition stSigned :: "instant state" where
  "stSigned = st0\<lparr>calls := [CallLoadDefaultConfig [WithRegion TestRegion], CallRetrieve, CallNow,
      CallPresignHTTP mockCreds testRequest (calculateSHA256Hash []) SigningName TestRegion 1700000000]\<rparr>"

definition testRoleArn :: string where
  "testRoleArn = ''arn:aws:iam::123456789012:role/msk''"

text \<open>Options that name a role and an STS region other than the main region.\<close>

definition roleOptions :: SignerOptions where
  "roleOptions = \<lparr>Region = Some ''us-west-2'', AwsProfile = None,
      RoleARN = Some ''arn:aws:iam::123456789012:role/msk'', STSSessionName = Some ''session'',
      STSRegion = Some ''us-east-1'', AwsMaxRetries = 0, AwsMaxBackOffMs = 0,
      AWSCredentials = None\<rparr>"

section \<open>What the specification says, where it is compared with the code\<close>

text \<open>
  The results of a Go call as a tuple of values, so that a statement about what an entry
  point returns can speak of a component the code may or may not have. \<open>GoInstant\<close> is a
  point in time (seconds since the epoch).
\<close>

datatype go_value = GoString string | GoError "error option" | GoInstant instant

fun results :: "(string \<times> error option) outcome \<Rightarrow> go_value list" where
  "results (Returns (token, err)) = [GoString token, GoError err]"
| "results (Panics m) = []"

text \<open>The specification's expiration instant: the current time plus the expiry window.\<close>

definition expiration_spec :: "instant \<Rightarrow> instant" where
  "expiration_spec now = now + DefaultExpirySeconds"

text \<open>The specification's region of the STS client: the distinct STS region when the options
  set one, the main region otherwise.\<close>

definition stsClientRegion_spec :: "SignerOptions \<Rightarrow> string option" where
  "stsClientRegion_spec opts = (case STSRegion opts of Some r \<Rightarrow> Some r | None \<Rightarrow> Region opts)"

text \<open>
  The bytes of a host name (RFC 1123): letters, digits, the hyphen and the dot. A region such
  as \<^verbatim>\<open>us-west-2\<close>, and so \<^verbatim>\<open>kafka.us-west-2.amazonaws.com\<close>, is made of them.
\<close>

definition plain :: "char \<Rightarrow> bool" where
  "plain c = (is_alnum c \<or> c = CHR ''-'' \<or> c = CHR ''.'')"

definition is_hostname :: "string \<Rightarrow> bool" where
  "is_hostname s = (\<forall>c \<in> set s. plain c)"

text \<open>The number a decimal string denotes: digits weigh by position, a leading minus sign
  negates.\<close>

definition decimal_nat :: "string \<Rightarrow> nat" where
  "decimal_nat s = foldl (\<lambda>acc c. 10 * acc + (byte_of c - 48)) 0 s"

definition decimal_value :: "string \<Rightarrow> int" where
  "decimal_value s = (case s of
       [] \<Rightarrow> 0
     | c # r \<Rightarrow> if c = CHR ''-'' then - int (decimal_nat r) else int (decimal_nat s))"

section \<open>Properties\<close>

subsection \<open>Evaluation on concrete inputs\<close>

text \<open>The defining equations of the library model and of the package, grouped for the
  simplifier; concrete instances below are computed with them.\<close>

lemmas str_eval = byte_of_def strings_Contains_def strings_HasPrefix_def strings_HasSuffix_def
  strings_Count_def strings_ToLower_def lower_byte_def digits_def strconv_FormatInt_def
  formatBits.simps char_of_def bit_Suc_0_iff

lemmas esc_eval = upperhex_def ishex_def unhex_def is_alnum_def shouldEscape_def escape_byte_def
  escape_def unescape_def QueryEscape_def QueryUnescape_def

lemmas values_eval = Values_lookup_def Values_Get_def Values_Set_def encode_key_def
  Values_Encode_def first_error_def ParseQuery_def URL_Query_def

lemmas parse_eval = zeroURL_def stringContainsCTLByte_def getScheme_def validOptionalPort_def
  validUserinfo_def parseHost_def parseUserinfo_def parseAuthority_def setPath_def setFragment_def
  parse_query_def parse_rest_def parse_def url_Parse_def

lemmas print_eval = validEncoded_def EscapedPath_def EscapedFragment_def Userinfo_String_def
  URL_authority_def URL_hier_def URL_String_def removeEmptyPort_def http_NewRequest_GET_def

lemmas signer_eval = ActionType_def ActionName_def SigningName_def UserAgentKey_def LibName_def
  ExpiresQueryKey_def DefaultSessionName_def DefaultExpirySeconds_def endpointURL_def
  buildQuery_def authURL_def buildRequest_def userAgent_def addUserAgent_def

lemmas load_eval = perform_def loadCredentialsFromCredentialsProvider_def
  loadDefaultCredentials_def loadCredentialsFromProfile_def loadCredentialsFromRoleArn_def
  credentialsOfOutput_def sts_NewFromConfig_def resolve_def signRequest_def

lemmas double_eval = mockCreds_def MockCredentialsProvider_def AnonymousCredentials_def
  mockLoad_def mockAssumeRole_def mockPresign_def testBuild_def testEnv_def
  failingSignerEnv_def brokenSignerEnv_def failingLoadEnv_def deniedRoleEnv_def
  st0_def TestRegion_def TestEndpoint_def
  testRequest_def stLoaded_def stSigned_def testRoleArn_def roleOptions_def

lemma buildRequest_TestEndpoint:
  "buildRequest DefaultExpirySeconds (endpointURL TestRegion) =
     (Some \<lparr>Method = ''GET'',
        ReqURL = \<lparr>Scheme = ''https'', Opaque = [], User = None,
           Host = ''kafka.us-west-2.amazonaws.com'', Path = ''/'', RawPath = [],
           OmitHost = False, ForceQuery = False,
           RawQuery = ''Action=kafka-cluster%3AConnect&X-Amz-Expires=900'',
           Fragment = [], RawFragment = []\<rparr>,
        ReqHost = ''kafka.us-west-2.amazonaws.com''\<rparr>, None)"
  by (simp add: TestRegion_def str_eval esc_eval values_eval parse_eval print_eval signer_eval)

lemma url_Parse_invalidURL:
  "url_Parse '':invalidURL:'' =
     (None, Some (URLError ''parse'' '':invalidURL:'' (ErrorString ''missing protocol scheme'')))"
  by (simp add: url_Parse_def parse_def stringContainsCTLByte_def getScheme_def byte_of_def)

subsection \<open>The order of the stages\<close>

lemma perform_calls: "perform c f st = (r, st') \<Longrightarrow> calls st' = calls st @ [c] \<and> f (world st) = (r, world st')"
  by (auto simp: perform_def split: prod.splits)

lemma constructAuthToken_success:
  assumes "constructAuthToken env region c st = (Returns (tok, None), st')"
  shows "\<exists>creds req now w1 signedURL w2 url'.
           c = Some creds
         \<and> buildRequest DefaultExpirySeconds (endpointURL region) = (Some req, None)
         \<and> Now env (world st) = (now, w1)
         \<and> PresignHTTP env creds req (calculateSHA256Hash []) SigningName region now w1 = ((signedURL, None), w2)
         \<and> addUserAgent (buildInfo env) signedURL = Returns (url', None)
         \<and> tok = base64Encode url'
         \<and> st' = st\<lparr>world := w2, calls := calls st @ [CallNow,
                CallPresignHTTP creds req (calculateSHA256Hash []) SigningName region now]\<rparr>"
  using assms
  by (auto simp: constructAuthToken_def signRequest_def perform_def
           split: prod.splits option.splits outcome.splits)

lemma constructAuthToken_error_token:
  "constructAuthToken env region c st = (Returns (tok, Some err), st') \<Longrightarrow> tok = []"
  by (auto simp: constructAuthToken_def split: prod.splits option.splits outcome.splits)

lemma resolve_calls:
  "resolve env region strat st = (r, st1) \<Longrightarrow>
     \<exists>cs. calls st1 = calls st @ cs \<and> (\<forall>c \<in> set cs. \<not> is_signing_call c)"
  by (cases strat)
     (auto simp: resolve_def loadDefaultCredentials_def loadCredentialsFromProfile_def
        loadCredentialsFromRoleArn_def loadCredentialsFromCredentialsProvider_def perform_def
        split: prod.splits option.splits outcome.splits)

lemma generate_resolve:
  "generate env region strat st =
    (case resolve env region strat st of
       (Panics m, st') \<Rightarrow> (Panics m, st')
     | (Returns (_, Some err), st') \<Rightarrow>
         (Returns ([], Some (WrapError ''failed to load credentials: '' err)), st')
     | (Returns (credentials, None), st') \<Rightarrow> constructAuthToken env region credentials st')"
  by (cases strat)
     (auto simp: generate_def resolve_def GenerateAuthToken_def GenerateAuthTokenFromProfile_def
        GenerateAuthTokenFromRole_def GenerateAuthTokenFromCredentialsProvider_def
        split: prod.splits option.splits outcome.splits)



lemma url_Parse_not_nil: "url_Parse s \<noteq> (None, None)"
  by (auto simp: url_Parse_def split: prod.splits option.splits if_splits)

subsection \<open>Validation of the options\<close>

text \<open>
  C5. \<open>Validate\<close> fails exactly when the region is unset (a nil receiver has no region) or
  more than one of profile, role ARN and credentials object is set; with the region set
  and none or one of the three set it passes.
\<close>

theorem Validate_fails_iff:
  "Validate None \<noteq> None \<and>
   (Validate (Some opts) \<noteq> None) =
     (Region opts = None
      \<or> (AwsProfile opts \<noteq> None \<and> RoleARN opts \<noteq> None)
      \<or> (AwsProfile opts \<noteq> None \<and> AWSCredentials opts \<noteq> None)
      \<or> (RoleARN opts \<noteq> None \<and> AWSCredentials opts \<noteq> None))"
  by (auto simp: Validate_def credentialsArgumentsCount_def split: if_splits)

text \<open>A profile together with a role ARN fails; the region alone, or with one source, passes.\<close>

theorem Validate_fails_iff_witness:
  "Validate (Some \<lparr>Region = Some ''us-west-2'', AwsProfile = Some ''dev'',
      RoleARN = Some ''arn:aws:iam::123456789012:role/msk'', STSSessionName = None,
      STSRegion = None, AwsMaxRetries = 0, AwsMaxBackOffMs = 0, AWSCredentials = None\<rparr>) \<noteq> None
   \<and> Validate (Some \<lparr>Region = Some ''us-west-2'', AwsProfile = None,
      RoleARN = Some ''arn:aws:iam::123456789012:role/msk'', STSSessionName = None,
      STSRegion = None, AwsMaxRetries = 0, AwsMaxBackOffMs = 0, AWSCredentials = None\<rparr>) = None
   \<and> Validate (Some \<lparr>Region = Some ''us-west-2'', AwsProfile = None,
      RoleARN = None, STSSessionName = None,
      STSRegion = None, AwsMaxRetries = 0, AwsMaxBackOffMs = 0, AWSCredentials = None\<rparr>) = None
   \<and> Validate (Some \<lparr>Region = None, AwsProfile = None,
      RoleARN = None, STSSessionName = None,
      STSRegion = None, AwsMaxRetries = 0, AwsMaxBackOffMs = 0, AWSCredentials = None\<rparr>) \<noteq> None"
  using
    Validate_fails_iff [of "\<lparr>Region = Some ''us-west-2'', AwsProfile = Some ''dev'',
      RoleARN = Some ''arn:aws:iam::123456789012:role/msk'', STSSessionName = None,
      STSRegion = None, AwsMaxRetries = 0, AwsMaxBackOffMs = 0, AWSCredentials = None\<rparr>"]
    Validate_fails_iff [of "\<lparr>Region = Some ''us-west-2'', AwsProfile = None,
      RoleARN = Some ''arn:aws:iam::123456789012:role/msk'', STSSessionName = None,
      STSRegion = None, AwsMaxRetries = 0, AwsMaxBackOffMs = 0, AWSCredentials = None\<rparr>"]
    Validate_fails_iff [of "\<lparr>Region = Some ''us-west-2'', AwsProfile = None,
      RoleARN = None, STSSessionName = None,
      STSRegion = None, AwsMaxRetries = 0, AwsMaxBackOffMs = 0, AWSCredentials = None\<rparr>"]
    Validate_fails_iff [of "\<lparr>Region = None, AwsProfile = None,
      RoleARN = None, STSSessionName = None,
      STSRegion = None, AwsMaxRetries = 0, AwsMaxBackOffMs = 0, AWSCredentials = None\<rparr>"]
  by simp

subsection \<open>An input that is no URL\<close>

text \<open>
  C6. When \<^verbatim>\<open>url.Parse\<close> rejects the input, \<open>addUserAgent\<close> returns the empty string and an
  error that wraps the parser's error under the text \<^verbatim>\<open>failed to parse signed url\<close>; and
  on no input does \<open>addUserAgent\<close> panic.
\<close>

theorem addUserAgent_invalid:
  "(\<forall>e. snd (url_Parse signedURL) = Some e \<longrightarrow>
      addUserAgent b signedURL = Returns ([], Some (WrapError ''failed to parse signed url: '' e)))
   \<and> (\<forall>m. addUserAgent b signedURL \<noteq> Panics m)"
  using url_Parse_not_nil[of signedURL]
  by (auto simp: addUserAgent_def split: prod.splits option.splits)

text \<open>The input of the package's test \<^verbatim>\<open>TestAddUserAgentWithInvalidURL\<close>.\<close>

theorem addUserAgent_invalid_witness:
  "snd (url_Parse '':invalidURL:'') =
     Some (URLError ''parse'' '':invalidURL:'' (ErrorString ''missing protocol scheme''))
   \<and> addUserAgent testBuild '':invalidURL:'' =
       Returns ([], Some (WrapError ''failed to parse signed url: ''
          (URLError ''parse'' '':invalidURL:'' (ErrorString ''missing protocol scheme''))))"
  using addUserAgent_invalid[of "'':invalidURL:''" testBuild] url_Parse_invalidURL
  by simp

subsection \<open>A failing stage ends the call\<close>

text \<open>Each case on its own: what an entry point returns when a collaborator fails, and what it
  goes on to do when the collaborators of the loading stage succeed.\<close>

lemma sf_default_load:
  "LoadDefaultConfig env [WithRegion region] (world st) = ((cfg, Some e), w1) \<longrightarrow>
   GenerateAuthToken env region st =
        (Returns ([], Some (WrapError ''failed to load credentials: ''
                             (WrapError ''unable to load SDK config: '' e))),
         st\<lparr>world := w1, calls := calls st @ [CallLoadDefaultConfig [WithRegion region]]\<rparr>)"
proof (rule impI)
  assume h: "LoadDefaultConfig env [WithRegion region] (world st) = ((cfg, Some e), w1)"
  show "GenerateAuthToken env region st =
        (Returns ([], Some (WrapError ''failed to load credentials: ''
                             (WrapError ''unable to load SDK config: '' e))),
         st\<lparr>world := w1, calls := calls st @ [CallLoadDefaultConfig [WithRegion region]]\<rparr>)"
    using h by (simp add: GenerateAuthToken_def loadDefaultCredentials_def loadCredentialsFromCredentialsProvider_def perform_def)
qed

lemma sf_default_retrieve:
  "LoadDefaultConfig env [WithRegion region] (world st) = ((cfg, None), w1)
        \<and> cfgCredentials cfg w1 = ((cr, Some e), w2) \<longrightarrow>
   GenerateAuthToken env region st =
        (Returns ([], Some (WrapError ''failed to load credentials: '' e)),
         st\<lparr>world := w2,
            calls := calls st @ [CallLoadDefaultConfig [WithRegion region], CallRetrieve]\<rparr>)"
proof (rule impI)
  assume h: "LoadDefaultConfig env [WithRegion region] (world st) = ((cfg, None), w1)
        \<and> cfgCredentials cfg w1 = ((cr, Some e), w2)"
  show "GenerateAuthToken env region st =
        (Returns ([], Some (WrapError ''failed to load credentials: '' e)),
         st\<lparr>world := w2,
            calls := calls st @ [CallLoadDefaultConfig [WithRegion region], CallRetrieve]\<rparr>)"
    using h by (simp add: GenerateAuthToken_def loadDefaultCredentials_def loadCredentialsFromCredentialsProvider_def perform_def)
qed

lemma sf_default_ok:
  "LoadDefaultConfig env [WithRegion region] (world st) = ((cfg, None), w1)
        \<and> cfgCredentials cfg w1 = ((cr, None), w2) \<longrightarrow>
   GenerateAuthToken env region st =
        constructAuthToken env region (Some cr)
          (st\<lparr>world := w2,
              calls := calls st @ [CallLoadDefaultConfig [WithRegion region], CallRetrieve]\<rparr>)"
proof (rule impI)
  assume h: "LoadDefaultConfig env [WithRegion region] (world st) = ((cfg, None), w1)
        \<and> cfgCredentials cfg w1 = ((cr, None), w2)"
  show "GenerateAuthToken env region st =
        constructAuthToken env region (Some cr)
          (st\<lparr>world := w2,
              calls := calls st @ [CallLoadDefaultConfig [WithRegion region], CallRetrieve]\<rparr>)"
    using h by (simp add: GenerateAuthToken_def loadDefaultCredentials_def loadCredentialsFromCredentialsProvider_def perform_def)
qed

lemma sf_profile_load:
  "LoadDefaultConfig env [WithRegion region, WithSharedConfigProfile awsProfile] (world st)
          = ((cfg, Some e), w1) \<longrightarrow>
   GenerateAuthTokenFromProfile env region awsProfile st =
        (Returns ([], Some (WrapError ''failed to load credentials: ''
                             (WrapError ''unable to load SDK config: '' e))),
         st\<lparr>world := w1,
            calls := calls st
              @ [CallLoadDefaultConfig [WithRegion region, WithSharedConfigProfile awsProfile]]\<rparr>)"
proof (rule impI)
  assume h: "LoadDefaultConfig env [WithRegion region, WithSharedConfigProfile awsProfile] (world st)
          = ((cfg, Some e), w1)"
  show "GenerateAuthTokenFromProfile env region awsProfile st =
        (Returns ([], Some (WrapError ''failed to load credentials: ''
                             (WrapError ''unable to load SDK config: '' e))),
         st\<lparr>world := w1,
            calls := calls st
              @ [CallLoadDefaultConfig [WithRegion region, WithSharedConfigProfile awsProfile]]\<rparr>)"
    using h by (simp add: GenerateAuthTokenFromProfile_def loadCredentialsFromProfile_def loadCredentialsFromCredentialsProvider_def perform_def)
qed

lemma sf_profile_retrieve:
  "LoadDefaultConfig env [WithRegion region, WithSharedConfigProfile awsProfile] (world st)
          = ((cfg, None), w1)
        \<and> cfgCredentials cfg w1 = ((cr, Some e), w2) \<longrightarrow>
   GenerateAuthTokenFromProfile env region awsProfile st =
        (Returns ([], Some (WrapError ''failed to load credentials: '' e)),
         st\<lparr>world := w2,
            calls := calls st
              @ [CallLoadDefaultConfig [WithRegion region, WithSharedConfigProfile awsProfile],
                 CallRetrieve]\<rparr>)"
proof (rule impI)
  assume h: "LoadDefaultConfig env [WithRegion region, WithSharedConfigProfile awsProfile] (world st)
          = ((cfg, None), w1)
        \<and> cfgCredentials cfg w1 = ((cr, Some e), w2)"
  show "GenerateAuthTokenFromProfile env region awsProfile st =
        (Returns ([], Some (WrapError ''failed to load credentials: '' e)),
         st\<lparr>world := w2,
            calls := calls st
              @ [CallLoadDefaultConfig [WithRegion region, WithSharedConfigProfile awsProfile],
                 CallRetrieve]\<rparr>)"
    using h by (simp add: GenerateAuthTokenFromProfile_def loadCredentialsFromProfile_def loadCredentialsFromCredentialsProvider_def perform_def)
qed

lemma sf_profile_ok:
  "LoadDefaultConfig env [WithRegion region, WithSharedConfigProfile awsProfile] (world st)
          = ((cfg, None), w1)
        \<and> cfgCredentials cfg w1 = ((cr, None), w2) \<longrightarrow>
   GenerateAuthTokenFromProfile env region awsProfile st =
        constructAuthToken env region (Some cr)
          (st\<lparr>world := w2,
              calls := calls st
                @ [CallLoadDefaultConfig [WithRegion region, WithSharedConfigProfile awsProfile],
                   CallRetrieve]\<rparr>)"
proof (rule impI)
  assume h: "LoadDefaultConfig env [WithRegion region, WithSharedConfigProfile awsProfile] (world st)
          = ((cfg, None), w1)
        \<and> cfgCredentials cfg w1 = ((cr, None), w2)"
  show "GenerateAuthTokenFromProfile env region awsProfile st =
        constructAuthToken env region (Some cr)
          (st\<lparr>world := w2,
              calls := calls st
                @ [CallLoadDefaultConfig [WithRegion region, WithSharedConfigProfile awsProfile],
                   CallRetrieve]\<rparr>)"
    using h by (simp add: GenerateAuthTokenFromProfile_def loadCredentialsFromProfile_def loadCredentialsFromCredentialsProvider_def perform_def)
qed

lemma sf_role_load:
  "LoadDefaultConfig env [WithRegion region] (world st) = ((cfg, Some e), w1) \<longrightarrow>
   GenerateAuthTokenFromRole env region roleArn stsSessionName st =
        (Returns ([], Some (WrapError ''failed to load credentials: ''
                             (WrapError ''unable to load SDK config: '' e))),
         st\<lparr>world := w1, calls := calls st @ [CallLoadDefaultConfig [WithRegion region]]\<rparr>)"
proof (rule impI)
  assume h: "LoadDefaultConfig env [WithRegion region] (world st) = ((cfg, Some e), w1)"
  show "GenerateAuthTokenFromRole env region roleArn stsSessionName st =
        (Returns ([], Some (WrapError ''failed to load credentials: ''
                             (WrapError ''unable to load SDK config: '' e))),
         st\<lparr>world := w1, calls := calls st @ [CallLoadDefaultConfig [WithRegion region]]\<rparr>)"
    using h by (simp add: GenerateAuthTokenFromRole_def loadCredentialsFromRoleArn_def credentialsOfOutput_def sts_NewFromConfig_def perform_def)
qed

lemma sf_role_assume:
  "LoadDefaultConfig env [WithRegion region] (world st) = ((cfg, None), w1)
        \<and> AssumeRole env (sts_NewFromConfig cfg)
             \<lparr>RoleArn = roleArn,
              RoleSessionName = (if stsSessionName = [] then DefaultSessionName else stsSessionName)\<rparr>
             w1 = ((out, Some e), w2) \<longrightarrow>
   GenerateAuthTokenFromRole env region roleArn stsSessionName st =
        (Returns ([], Some (WrapError ''failed to load credentials: ''
                             (WrapError (''unable to assume role, '' @ roleArn @ '': '') e))),
         st\<lparr>world := w2,
            calls := calls st @ [CallLoadDefaultConfig [WithRegion region],
              CallAssumeRole (cfgRegion cfg)
                \<lparr>RoleArn = roleArn,
                 RoleSessionName =
                   (if stsSessionName = [] then DefaultSessionName else stsSessionName)\<rparr>]\<rparr>)"
proof (rule impI)
  assume h: "LoadDefaultConfig env [WithRegion region] (world st) = ((cfg, None), w1)
        \<and> AssumeRole env (sts_NewFromConfig cfg)
             \<lparr>RoleArn = roleArn,
              RoleSessionName = (if stsSessionName = [] then DefaultSessionName else stsSessionName)\<rparr>
             w1 = ((out, Some e), w2)"
  show "GenerateAuthTokenFromRole env region roleArn stsSessionName st =
        (Returns ([], Some (WrapError ''failed to load credentials: ''
                             (WrapError (''unable to assume role, '' @ roleArn @ '': '') e))),
         st\<lparr>world := w2,
            calls := calls st @ [CallLoadDefaultConfig [WithRegion region],
              CallAssumeRole (cfgRegion cfg)
                \<lparr>RoleArn = roleArn,
                 RoleSessionName =
                   (if stsSessionName = [] then DefaultSessionName else stsSessionName)\<rparr>]\<rparr>)"
    using h by (simp add: GenerateAuthTokenFromRole_def loadCredentialsFromRoleArn_def credentialsOfOutput_def sts_NewFromConfig_def perform_def)
qed

lemma sf_role_ok:
  "LoadDefaultConfig env [WithRegion region] (world st) = ((cfg, None), w1)
        \<and> AssumeRole env (sts_NewFromConfig cfg)
             \<lparr>RoleArn = roleArn,
              RoleSessionName = (if stsSessionName = [] then DefaultSessionName else stsSessionName)\<rparr>
             w1
            = ((Some \<lparr>outCredentials = Some \<lparr>stsAccessKeyId = Some keyId,
                  stsSecretAccessKey = Some secret, stsSessionToken = Some token\<rparr>\<rparr>, None), w2) \<longrightarrow>
   GenerateAuthTokenFromRole env region roleArn stsSessionName st =
        constructAuthToken env region
          (Some \<lparr>AccessKeyID = keyId, SecretAccessKey = secret, SessionToken = token\<rparr>)
          (st\<lparr>world := w2,
              calls := calls st @ [CallLoadDefaultConfig [WithRegion region],
                CallAssumeRole (cfgRegion cfg)
                  \<lparr>RoleArn = roleArn,
                   RoleSessionName =
                     (if stsSessionName = [] then DefaultSessionName else stsSessionName)\<rparr>]\<rparr>)"
proof (rule impI)
  assume h: "LoadDefaultConfig env [WithRegion region] (world st) = ((cfg, None), w1)
        \<and> AssumeRole env (sts_NewFromConfig cfg)
             \<lparr>RoleArn = roleArn,
              RoleSessionName = (if stsSessionName = [] then DefaultSessionName else stsSessionName)\<rparr>
             w1
            = ((Some \<lparr>outCredentials = Some \<lparr>stsAccessKeyId = Some keyId,
                  stsSecretAccessKey = Some secret, stsSessionToken = Some token\<rparr>\<rparr>, None), w2)"
  show "GenerateAuthTokenFromRole env region roleArn stsSessionName st =
        constructAuthToken env region
          (Some \<lparr>AccessKeyID = keyId, SecretAccessKey = secret, SessionToken = token\<rparr>)
          (st\<lparr>world := w2,
              calls := calls st @ [CallLoadDefaultConfig [WithRegion region],
                CallAssumeRole (cfgRegion cfg)
                  \<lparr>RoleArn = roleArn,
                   RoleSessionName =
                     (if stsSessionName = [] then DefaultSessionName else stsSessionName)\<rparr>]\<rparr>)"
    using h by (simp add: GenerateAuthTokenFromRole_def loadCredentialsFromRoleArn_def credentialsOfOutput_def sts_NewFromConfig_def perform_def)
qed

lemma sf_provider_fail:
  "credentialsProvider (world st) = ((cr, Some e), w1) \<longrightarrow>
   GenerateAuthTokenFromCredentialsProvider env region credentialsProvider st =
        (Returns ([], Some (WrapError ''failed to load credentials: '' e)),
         st\<lparr>world := w1, calls := calls st @ [CallRetrieve]\<rparr>)"
proof (rule impI)
  assume h: "credentialsProvider (world st) = ((cr, Some e), w1)"
  show "GenerateAuthTokenFromCredentialsProvider env region credentialsProvider st =
        (Returns ([], Some (WrapError ''failed to load credentials: '' e)),
         st\<lparr>world := w1, calls := calls st @ [CallRetrieve]\<rparr>)"
    using h by (simp add: GenerateAuthTokenFromCredentialsProvider_def loadCredentialsFromCredentialsProvider_def perform_def)
qed

lemma sf_provider_ok:
  "credentialsProvider (world st) = ((cr, None), w1) \<longrightarrow>
   GenerateAuthTokenFromCredentialsProvider env region credentialsProvider st =
        constructAuthToken env region (Some cr)
          (st\<lparr>world := w1, calls := calls st @ [CallRetrieve]\<rparr>)"
proof (rule impI)
  assume h: "credentialsProvider (world st) = ((cr, None), w1)"
  show "GenerateAuthTokenFromCredentialsProvider env region credentialsProvider st =
        constructAuthToken env region (Some cr)
          (st\<lparr>world := w1, calls := calls st @ [CallRetrieve]\<rparr>)"
    using h by (simp add: GenerateAuthTokenFromCredentialsProvider_def loadCredentialsFromCredentialsProvider_def perform_def)
qed

lemma sf_build:
  "http_NewRequest_GET (URL_String (authURL DefaultExpirySeconds (endpointURL region)))
          = (r, Some e) \<longrightarrow>
   constructAuthToken env region c st =
        (Returns ([], Some (WrapError ''failed to build request for signing: '' e)), st)"
proof (rule impI)
  assume h: "http_NewRequest_GET (URL_String (authURL DefaultExpirySeconds (endpointURL region)))
          = (r, Some e)"
  show "constructAuthToken env region c st =
        (Returns ([], Some (WrapError ''failed to build request for signing: '' e)), st)"
    using h by (simp add: constructAuthToken_def buildRequest_def split: option.splits)
qed

lemma sf_sign:
  "http_NewRequest_GET (URL_String (authURL DefaultExpirySeconds (endpointURL region)))
          = (Some req, None)
        \<and> Now env (world st) = (now, w1)
        \<and> PresignHTTP env cr req (calculateSHA256Hash []) SigningName region now w1
            = ((u, Some e), w2) \<longrightarrow>
   constructAuthToken env region (Some cr) st =
        (Returns ([], Some (WrapError ''failed to sign request with aws sig v4: '' e)),
         st\<lparr>world := w2,
            calls := calls st @ [CallNow,
              CallPresignHTTP cr req (calculateSHA256Hash []) SigningName region now]\<rparr>)"
proof (rule impI)
  assume h: "http_NewRequest_GET (URL_String (authURL DefaultExpirySeconds (endpointURL region)))
          = (Some req, None)
        \<and> Now env (world st) = (now, w1)
        \<and> PresignHTTP env cr req (calculateSHA256Hash []) SigningName region now w1
            = ((u, Some e), w2)"
  show "constructAuthToken env region (Some cr) st =
        (Returns ([], Some (WrapError ''failed to sign request with aws sig v4: '' e)),
         st\<lparr>world := w2,
            calls := calls st @ [CallNow,
              CallPresignHTTP cr req (calculateSHA256Hash []) SigningName region now]\<rparr>)"
    using h by (simp add: constructAuthToken_def buildRequest_def signRequest_def perform_def)
qed

lemma sf_finalize:
  "http_NewRequest_GET (URL_String (authURL DefaultExpirySeconds (endpointURL region)))
          = (Some req, None)
        \<and> Now env (world st) = (now, w1)
        \<and> PresignHTTP env cr req (calculateSHA256Hash []) SigningName region now w1
            = ((u, None), w2)
        \<and> url_Parse u = (x, Some e) \<longrightarrow>
   constructAuthToken env region (Some cr) st =
        (Returns ([], Some (WrapError ''failed to add user agent to the signed url: ''
                             (WrapError ''failed to parse signed url: '' e))),
         st\<lparr>world := w2,
            calls := calls st @ [CallNow,
              CallPresignHTTP cr req (calculateSHA256Hash []) SigningName region now]\<rparr>)"
proof (rule impI)
  assume h: "http_NewRequest_GET (URL_String (authURL DefaultExpirySeconds (endpointURL region)))
          = (Some req, None)
        \<and> Now env (world st) = (now, w1)
        \<and> PresignHTTP env cr req (calculateSHA256Hash []) SigningName region now w1
            = ((u, None), w2)
        \<and> url_Parse u = (x, Some e)"
  show "constructAuthToken env region (Some cr) st =
        (Returns ([], Some (WrapError ''failed to add user agent to the signed url: ''
                             (WrapError ''failed to parse signed url: '' e))),
         st\<lparr>world := w2,
            calls := calls st @ [CallNow,
              CallPresignHTTP cr req (calculateSHA256Hash []) SigningName region now]\<rparr>)"
    using h by (simp add: constructAuthToken_def buildRequest_def signRequest_def perform_def addUserAgent_def split: option.splits)
qed

lemma sf_general:
  "generate env region strat st = (Returns (tok, Some err), st3) \<longrightarrow>
        tok = [] \<and> (\<exists>p cause. err = WrapError p cause \<and> Unwrap err = Some cause
          \<and> p \<in> {''failed to load credentials: '', ''failed to build request for signing: '',
                   ''failed to sign request with aws sig v4: '',
                   ''failed to add user agent to the signed url: ''})"
  by (auto simp: generate_resolve constructAuthToken_def
        split: prod.splits option.splits outcome.splits)

text \<open>
  C3. Every entry point, stage by stage, in terms of what the collaborators answer.
  \<^item> Loading. When \<^verbatim>\<open>config.LoadDefaultConfig\<close> fails, the entry points that call it return
    the empty token and that error wrapped under \<^verbatim>\<open>unable to load SDK config\<close> and then under
    \<^verbatim>\<open>failed to load credentials\<close>; when the provider's \<^verbatim>\<open>Retrieve\<close> fails, its error
    wrapped under \<^verbatim>\<open>failed to load credentials\<close>; when \<^verbatim>\<open>AssumeRole\<close> fails, its error
    wrapped under \<^verbatim>\<open>unable to assume role, <arn>\<close> and then under
    \<^verbatim>\<open>failed to load credentials\<close>. The state returned is the state after the failing call,
    with that call last in the log: nothing was called after it. When loading succeeds, the
    entry point is \<open>constructAuthToken\<close> on the credentials loaded.
  \<^item> Building. When \<^verbatim>\<open>http.NewRequest\<close> rejects the URL, \<open>constructAuthToken\<close> returns the
    empty token and that error wrapped under \<^verbatim>\<open>failed to build request for signing\<close>, in
    an unchanged state: neither the clock nor the signer was called.
  \<^item> Signing. When the signer fails, the empty token and its error wrapped under
    \<^verbatim>\<open>failed to sign request with aws sig v4\<close>.
  \<^item> Finalization. When the signed URL does not parse, the empty token and the parser's
    error wrapped under \<^verbatim>\<open>failed to parse signed url\<close> and then under
    \<^verbatim>\<open>failed to add user agent to the signed url\<close>.
  \<^item> Whenever an entry point returns an error, the token is empty and the error wraps its
    cause under one of the four stage messages.
\<close>

theorem stage_failure_short_circuits:
  "(LoadDefaultConfig env [WithRegion region] (world st) = ((cfg, Some e), w1) \<longrightarrow>
      GenerateAuthToken env region st =
        (Returns ([], Some (WrapError ''failed to load credentials: ''
                             (WrapError ''unable to load SDK config: '' e))),
         st\<lparr>world := w1, calls := calls st @ [CallLoadDefaultConfig [WithRegion region]]\<rparr>))
   \<and> (LoadDefaultConfig env [WithRegion region] (world st) = ((cfg, None), w1)
        \<and> cfgCredentials cfg w1 = ((cr, Some e), w2) \<longrightarrow>
      GenerateAuthToken env region st =
        (Returns ([], Some (WrapError ''failed to load credentials: '' e)),
         st\<lparr>world := w2,
            calls := calls st @ [CallLoadDefaultConfig [WithRegion region], CallRetrieve]\<rparr>))
   \<and> (LoadDefaultConfig env [WithRegion region] (world st) = ((cfg, None), w1)
        \<and> cfgCredentials cfg w1 = ((cr, None), w2) \<longrightarrow>
      GenerateAuthToken env region st =
        constructAuthToken env region (Some cr)
          (st\<lparr>world := w2,
              calls := calls st @ [CallLoadDefaultConfig [WithRegion region], CallRetrieve]\<rparr>))
   \<and> (LoadDefaultConfig env [WithRegion region, WithSharedConfigProfile awsProfile] (world st)
          = ((cfg, Some e), w1) \<longrightarrow>
      GenerateAuthTokenFromProfile env region awsProfile st =
        (Returns ([], Some (WrapError ''failed to load credentials: ''
                             (WrapError ''unable to load SDK config: '' e))),
         st\<lparr>world := w1,
            calls := calls st
              @ [CallLoadDefaultConfig [WithRegion region, WithSharedConfigProfile awsProfile]]\<rparr>))
   \<and> (LoadDefaultConfig env [WithRegion region, WithSharedConfigProfile awsProfile] (world st)
          = ((cfg, None), w1)
        \<and> cfgCredentials cfg w1 = ((cr, Some e), w2) \<longrightarrow>
      GenerateAuthTokenFromProfile env region awsProfile st =
        (Returns ([], Some (WrapError ''failed to load credentials: '' e)),
         st\<lparr>world := w2,
            calls := calls st
              @ [CallLoadDefaultConfig [WithRegion region, WithSharedConfigProfile awsProfile],
                 CallRetrieve]\<rparr>))
   \<and> (LoadDefaultConfig env [WithRegion region, WithSharedConfigProfile awsProfile] (world st)
          = ((cfg, None), w1)
        \<and> cfgCredentials cfg w1 = ((cr, None), w2) \<longrightarrow>
      GenerateAuthTokenFromProfile env region awsProfile st =
        constructAuthToken env region (Some cr)
          (st\<lparr>world := w2,
              calls := calls st
                @ [CallLoadDefaultConfig [WithRegion region, WithSharedConfigProfile awsProfile],
                   CallRetrieve]\<rparr>))
   \<and> (LoadDefaultConfig env [WithRegion region] (world st) = ((cfg, Some e), w1) \<longrightarrow>
      GenerateAuthTokenFromRole env region roleArn stsSessionName st =
        (Returns ([], Some (WrapError ''failed to load credentials: ''
                             (WrapError ''unable to load SDK config: '' e))),
         st\<lparr>world := w1, calls := calls st @ [CallLoadDefaultConfig [WithRegion region]]\<rparr>))
   \<and> (LoadDefaultConfig env [WithRegion region] (world st) = ((cfg, None), w1)
        \<and> AssumeRole env (sts_NewFromConfig cfg)
             \<lparr>RoleArn = roleArn,
              RoleSessionName = (if stsSessionName = [] then DefaultSessionName else stsSessionName)\<rparr>
             w1 = ((out, Some e), w2) \<longrightarrow>
      GenerateAuthTokenFromRole env region roleArn stsSessionName st =
        (Returns ([], Some (WrapError ''failed to load credentials: ''
                             (WrapError (''unable to assume role, '' @ roleArn @ '': '') e))),
         st\<lparr>world := w2,
            calls := calls st @ [CallLoadDefaultConfig [WithRegion region],
              CallAssumeRole (cfgRegion cfg)
                \<lparr>RoleArn = roleArn,
                 RoleSessionName =
                   (if stsSessionName = [] then DefaultSessionName else stsSessionName)\<rparr>]\<rparr>))
   \<and> (LoadDefaultConfig env [WithRegion region] (world st) = ((cfg, None), w1)
        \<and> AssumeRole env (sts_NewFromConfig cfg)
             \<lparr>RoleArn = roleArn,
              RoleSessionName = (if stsSessionName = [] then DefaultSessionName else stsSessionName)\<rparr>
             w1
            = ((Some \<lparr>outCredentials = Some \<lparr>stsAccessKeyId = Some keyId,
                  stsSecretAccessKey = Some secret, stsSessionToken = Some token\<rparr>\<rparr>, None), w2) \<longrightarrow>
      GenerateAuthTokenFromRole env region roleArn stsSessionName st =
        constructAuthToken env region
          (Some \<lparr>AccessKeyID = keyId, SecretAccessKey = secret, SessionToken = token\<rparr>)
          (st\<lparr>world := w2,
              calls := calls st @ [CallLoadDefaultConfig [WithRegion region],
                CallAssumeRole (cfgRegion cfg)
                  \<lparr>RoleArn = roleArn,
                   RoleSessionName =
                     (if stsSessionName = [] then DefaultSessionName else stsSessionName)\<rparr>]\<rparr>))
   \<and> (credentialsProvider (world st) = ((cr, Some e), w1) \<longrightarrow>
      GenerateAuthTokenFromCredentialsProvider env region credentialsProvider st =
        (Returns ([], Some (WrapError ''failed to load credentials: '' e)),
         st\<lparr>world := w1, calls := calls st @ [CallRetrieve]\<rparr>))
   \<and> (credentialsProvider (world st) = ((cr, None), w1) \<longrightarrow>
      GenerateAuthTokenFromCredentialsProvider env region credentialsProvider st =
        constructAuthToken env region (Some cr)
          (st\<lparr>world := w1, calls := calls st @ [CallRetrieve]\<rparr>))
   \<and> (http_NewRequest_GET (URL_String (authURL DefaultExpirySeconds (endpointURL region)))
          = (r, Some e) \<longrightarrow>
      constructAuthToken env region c st =
        (Returns ([], Some (WrapError ''failed to build request for signing: '' e)), st))
   \<and> (http_NewRequest_GET (URL_String (authURL DefaultExpirySeconds (endpointURL region)))
          = (Some req, None)
        \<and> Now env (world st) = (now, w1)
        \<and> PresignHTTP env cr req (calculateSHA256Hash []) SigningName region now w1
            = ((u, Some e), w2) \<longrightarrow>
      constructAuthToken env region (Some cr) st =
        (Returns ([], Some (WrapError ''failed to sign request with aws sig v4: '' e)),
         st\<lparr>world := w2,
            calls := calls st @ [CallNow,
              CallPresignHTTP cr req (calculateSHA256Hash []) SigningName region now]\<rparr>))
   \<and> (http_NewRequest_GET (URL_String (authURL DefaultExpirySeconds (endpointURL region)))
          = (Some req, None)
        \<and> Now env (world st) = (now, w1)
        \<and> PresignHTTP env cr req (calculateSHA256Hash []) SigningName region now w1
            = ((u, None), w2)
        \<and> url_Parse u = (x, Some e) \<longrightarrow>
      constructAuthToken env region (Some cr) st =
        (Returns ([], Some (WrapError ''failed to add user agent to the signed url: ''
                             (WrapError ''failed to parse signed url: '' e))),
         st\<lparr>world := w2,
            calls := calls st @ [CallNow,
              CallPresignHTTP cr req (calculateSHA256Hash []) SigningName region now]\<rparr>))
   \<and> (generate env region strat st = (Returns (tok, Some err), st3) \<longrightarrow>
        tok = [] \<and> (\<exists>p cause. err = WrapError p cause \<and> Unwrap err = Some cause
          \<and> p \<in> {''failed to load credentials: '', ''failed to build request for signing: '',
                   ''failed to sign request with aws sig v4: '',
                   ''failed to add user agent to the signed url: ''}))"
  by (intro conjI sf_default_load sf_default_retrieve sf_default_ok sf_profile_load sf_profile_retrieve sf_profile_ok sf_role_load sf_role_assume sf_role_ok sf_provider_fail sf_provider_ok sf_build sf_sign sf_finalize sf_general)


lemma NewRequest_TestEndpoint:
  "http_NewRequest_GET (URL_String (authURL DefaultExpirySeconds (endpointURL TestRegion)))
     = (Some testRequest, None)"
  using buildRequest_TestEndpoint by (simp add: buildRequest_def testRequest_def)

lemma NewRequest_bad_region:
  "http_NewRequest_GET (URL_String (authURL DefaultExpirySeconds (endpointURL ''us west''))) =
     (None, Some (URLError ''parse''
        ''https://kafka.us%20west.amazonaws.com/?Action=kafka-cluster%3AConnect&X-Amz-Expires=900''
        (EscapeError ''%20'')))"
  by (simp add: str_eval esc_eval values_eval parse_eval print_eval signer_eval)

lemma resolve_default:
  "resolve env0 region DefaultChain st0 =
     (Returns (Some mockCreds, None),
      st0\<lparr>calls := [CallLoadDefaultConfig [WithRegion region], CallRetrieve]\<rparr>)"
  if "LoadDefaultConfig env0 = mockLoad"
  using that by (simp add: load_eval mockLoad_def MockCredentialsProvider_def st0_def)

text \<open>Six failures on the test doubles: a loader that fails, an STS that refuses the role,
  the anonymous provider, a region with a space in it, a signer that fails, and a signer that
  returns text that is no URL.\<close>

theorem stage_failure_short_circuits_witness:
  "GenerateAuthToken failingLoadEnv TestRegion st0 =
     (Returns ([], Some (WrapError ''failed to load credentials: ''
        (WrapError ''unable to load SDK config: '' (ErrorString ''failed to load shared config'')))),
      st0\<lparr>calls := [CallLoadDefaultConfig [WithRegion TestRegion]]\<rparr>)
   \<and> GenerateAuthTokenFromRole deniedRoleEnv TestRegion testRoleArn [] st0 =
     (Returns ([], Some (WrapError ''failed to load credentials: ''
        (WrapError (''unable to assume role, '' @ testRoleArn @ '': '') (ErrorString ''AccessDenied for session MSKSASLDefaultSession'')))),
      st0\<lparr>calls := [CallLoadDefaultConfig [WithRegion TestRegion],
         CallAssumeRole TestRegion \<lparr>RoleArn = testRoleArn, RoleSessionName = DefaultSessionName\<rparr>]\<rparr>)
   \<and> GenerateAuthTokenFromCredentialsProvider testEnv TestRegion AnonymousCredentials st0 =
     (Returns ([], Some (WrapError ''failed to load credentials: ''
        (ErrorString ''the AnonymousCredentials is not a valid credential provider''))),
      st0\<lparr>calls := [CallRetrieve]\<rparr>)
   \<and> GenerateAuthToken testEnv ''us west'' st0 =
     (Returns ([], Some (WrapError ''failed to build request for signing: ''
        (URLError ''parse''
          ''https://kafka.us%20west.amazonaws.com/?Action=kafka-cluster%3AConnect&X-Amz-Expires=900''
          (EscapeError ''%20'')))),
      st0\<lparr>calls := [CallLoadDefaultConfig [WithRegion ''us west''], CallRetrieve]\<rparr>)
   \<and> GenerateAuthToken failingSignerEnv TestRegion st0 =
     (Returns ([], Some (WrapError ''failed to sign request with aws sig v4: ''
        (ErrorString ''signing failed''))), stSigned)
   \<and> GenerateAuthToken brokenSignerEnv TestRegion st0 =
     (Returns ([], Some (WrapError ''failed to add user agent to the signed url: ''
        (WrapError ''failed to parse signed url: ''
          (URLError ''parse'' '':invalidURL:'' (ErrorString ''missing protocol scheme''))))),
      stSigned)"
proof (intro conjI)
  show "GenerateAuthToken failingLoadEnv TestRegion st0 =
     (Returns ([], Some (WrapError ''failed to load credentials: ''
        (WrapError ''unable to load SDK config: '' (ErrorString ''failed to load shared config'')))),
      st0\<lparr>calls := [CallLoadDefaultConfig [WithRegion TestRegion]]\<rparr>)"
    using stage_failure_short_circuits
      [where env = failingLoadEnv and region = TestRegion and st = st0
         and cfg = "\<lparr>cfgRegion = [], cfgCredentials = AnonymousCredentials\<rparr>"
         and e = "ErrorString ''failed to load shared config''" and ?w1.0 = "world st0",
       THEN conjunct1]
    by (simp add: failingLoadEnv_def testEnv_def st0_def)
next
  show "GenerateAuthTokenFromRole deniedRoleEnv TestRegion testRoleArn [] st0 =
     (Returns ([], Some (WrapError ''failed to load credentials: ''
        (WrapError (''unable to assume role, '' @ testRoleArn @ '': '') (ErrorString ''AccessDenied for session MSKSASLDefaultSession'')))),
      st0\<lparr>calls := [CallLoadDefaultConfig [WithRegion TestRegion],
         CallAssumeRole TestRegion \<lparr>RoleArn = testRoleArn, RoleSessionName = DefaultSessionName\<rparr>]\<rparr>)"
    using stage_failure_short_circuits
      [where env = deniedRoleEnv and region = TestRegion and st = st0
         and roleArn = testRoleArn and stsSessionName = "[]"
         and cfg = "\<lparr>cfgRegion = TestRegion, cfgCredentials = MockCredentialsProvider mockCreds\<rparr>"
         and out = None and e = "ErrorString ''AccessDenied for session MSKSASLDefaultSession''"
         and ?w1.0 = "world st0" and ?w2.0 = "world st0",
       THEN conjunct2, THEN conjunct2, THEN conjunct2, THEN conjunct2, THEN conjunct2, THEN conjunct2, THEN conjunct2, THEN conjunct1]
    by (simp add: deniedRoleEnv_def testEnv_def mockLoad_def st0_def DefaultSessionName_def)
next
  show "GenerateAuthTokenFromCredentialsProvider testEnv TestRegion AnonymousCredentials st0 =
     (Returns ([], Some (WrapError ''failed to load credentials: ''
        (ErrorString ''the AnonymousCredentials is not a valid credential provider''))),
      st0\<lparr>calls := [CallRetrieve]\<rparr>)"
    using stage_failure_short_circuits
      [where env = testEnv and region = TestRegion and st = st0
         and credentialsProvider = AnonymousCredentials
         and cr = "\<lparr>AccessKeyID = [], SecretAccessKey = [], SessionToken = []\<rparr>"
         and e = "ErrorString ''the AnonymousCredentials is not a valid credential provider''"
         and ?w1.0 = "world st0",
       THEN conjunct2, THEN conjunct2, THEN conjunct2, THEN conjunct2, THEN conjunct2, THEN conjunct2, THEN conjunct2, THEN conjunct2, THEN conjunct2, THEN conjunct1]
    by (simp add: AnonymousCredentials_def st0_def)
next
  have a: "GenerateAuthToken testEnv ''us west'' st0 =
      constructAuthToken testEnv ''us west'' (Some mockCreds)
        (st0\<lparr>calls := [CallLoadDefaultConfig [WithRegion ''us west''], CallRetrieve]\<rparr>)"
    using stage_failure_short_circuits
      [where env = testEnv and region = "''us west''" and st = st0
         and cfg = "\<lparr>cfgRegion = ''us west'', cfgCredentials = MockCredentialsProvider mockCreds\<rparr>"
         and cr = mockCreds and ?w1.0 = "world st0" and ?w2.0 = "world st0",
       THEN conjunct2, THEN conjunct2, THEN conjunct1]
    by (simp add: testEnv_def mockLoad_def MockCredentialsProvider_def st0_def)
  show "GenerateAuthToken testEnv ''us west'' st0 =
     (Returns ([], Some (WrapError ''failed to build request for signing: ''
        (URLError ''parse''
          ''https://kafka.us%20west.amazonaws.com/?Action=kafka-cluster%3AConnect&X-Amz-Expires=900''
          (EscapeError ''%20'')))),
      st0\<lparr>calls := [CallLoadDefaultConfig [WithRegion ''us west''], CallRetrieve]\<rparr>)"
    using stage_failure_short_circuits
      [where env = testEnv and region = "''us west''"
         and st = "st0\<lparr>calls := [CallLoadDefaultConfig [WithRegion ''us west''], CallRetrieve]\<rparr>"
         and c = "Some mockCreds" and r = None
         and e = "URLError ''parse''
          ''https://kafka.us%20west.amazonaws.com/?Action=kafka-cluster%3AConnect&X-Amz-Expires=900''
          (EscapeError ''%20'')",
       THEN conjunct2, THEN conjunct2, THEN conjunct2, THEN conjunct2, THEN conjunct2, THEN conjunct2, THEN conjunct2, THEN conjunct2, THEN conjunct2, THEN conjunct2, THEN conjunct2, THEN conjunct1]
      NewRequest_bad_region
    unfolding a by simp
next
  have a: "GenerateAuthToken failingSignerEnv TestRegion st0 =
      constructAuthToken failingSignerEnv TestRegion (Some mockCreds) stLoaded"
    using stage_failure_short_circuits
      [where env = failingSignerEnv and region = TestRegion and st = st0
         and cfg = "\<lparr>cfgRegion = TestRegion, cfgCredentials = MockCredentialsProvider mockCreds\<rparr>"
         and cr = mockCreds and ?w1.0 = "world st0" and ?w2.0 = "world st0",
       THEN conjunct2, THEN conjunct2, THEN conjunct1]
    by (simp add: failingSignerEnv_def testEnv_def mockLoad_def MockCredentialsProvider_def
          st0_def stLoaded_def)
  show "GenerateAuthToken failingSignerEnv TestRegion st0 =
     (Returns ([], Some (WrapError ''failed to sign request with aws sig v4: ''
        (ErrorString ''signing failed''))), stSigned)"
    using stage_failure_short_circuits
      [where env = failingSignerEnv and region = TestRegion and st = stLoaded
         and cr = mockCreds and req = testRequest and now = 1700000000
         and ?w1.0 = 1700000000 and ?w2.0 = 1700000000
         and u = "[]" and e = "ErrorString ''signing failed''",
       THEN conjunct2, THEN conjunct2, THEN conjunct2, THEN conjunct2, THEN conjunct2, THEN conjunct2, THEN conjunct2, THEN conjunct2, THEN conjunct2, THEN conjunct2, THEN conjunct2, THEN conjunct2, THEN conjunct1]
      NewRequest_TestEndpoint
    unfolding a by (simp add: failingSignerEnv_def testEnv_def stLoaded_def stSigned_def st0_def)
next
  have a: "GenerateAuthToken brokenSignerEnv TestRegion st0 =
      constructAuthToken brokenSignerEnv TestRegion (Some mockCreds) stLoaded"
    using stage_failure_short_circuits
      [where env = brokenSignerEnv and region = TestRegion and st = st0
         and cfg = "\<lparr>cfgRegion = TestRegion, cfgCredentials = MockCredentialsProvider mockCreds\<rparr>"
         and cr = mockCreds and ?w1.0 = "world st0" and ?w2.0 = "world st0",
       THEN conjunct2, THEN conjunct2, THEN conjunct1]
    by (simp add: brokenSignerEnv_def testEnv_def mockLoad_def MockCredentialsProvider_def
          st0_def stLoaded_def)
  show "GenerateAuthToken brokenSignerEnv TestRegion st0 =
     (Returns ([], Some (WrapError ''failed to add user agent to the signed url: ''
        (WrapError ''failed to parse signed url: ''
          (URLError ''parse'' '':invalidURL:'' (ErrorString ''missing protocol scheme''))))),
      stSigned)"
    using stage_failure_short_circuits
      [where env = brokenSignerEnv and region = TestRegion and st = stLoaded
         and cr = mockCreds and req = testRequest and now = 1700000000
         and ?w1.0 = 1700000000 and ?w2.0 = 1700000000
         and u = "'':invalidURL:''" and x = None
         and e = "URLError ''parse'' '':invalidURL:'' (ErrorString ''missing protocol scheme'')",
       THEN conjunct2, THEN conjunct2, THEN conjunct2, THEN conjunct2, THEN conjunct2, THEN conjunct2, THEN conjunct2, THEN conjunct2, THEN conjunct2, THEN conjunct2, THEN conjunct2, THEN conjunct2, THEN conjunct2, THEN conjunct1]
      NewRequest_TestEndpoint url_Parse_invalidURL
    unfolding a by (simp add: brokenSignerEnv_def testEnv_def stLoaded_def stSigned_def st0_def)
qed


subsection \<open>The session name of an assumed role\<close>

lemma constructAuthToken_calls:
  "\<exists>rest. calls (snd (constructAuthToken env region c st)) = calls st @ rest
          \<and> (\<forall>k \<in> set rest. is_signing_call k)"
  by (auto simp: constructAuthToken_def signRequest_def perform_def
           split: prod.splits option.splits outcome.splits)

lemma loadCredentialsFromRoleArn_calls:
  assumes "LoadDefaultConfig env [WithRegion region] (world st) = ((cfg, None), w1)"
  shows "calls (snd (loadCredentialsFromRoleArn env region roleArn session st)) =
           calls st @ [CallLoadDefaultConfig [WithRegion region],
                       CallAssumeRole (cfgRegion cfg) \<lparr>RoleArn = roleArn, RoleSessionName = session\<rparr>]"
    and "\<exists>out err w2.
           AssumeRole env (sts_NewFromConfig cfg) \<lparr>RoleArn = roleArn, RoleSessionName = session\<rparr> w1
             = ((out, err), w2)
           \<and> world (snd (loadCredentialsFromRoleArn env region roleArn session st)) = w2"
  using assms
  by (auto simp: loadCredentialsFromRoleArn_def perform_def sts_NewFromConfig_def
           split: prod.splits option.splits outcome.splits)

lemma mockLoad_testEnv: "LoadDefaultConfig testEnv [WithRegion TestRegion] (world st0) =
    ((\<lparr>cfgRegion = TestRegion, cfgCredentials = MockCredentialsProvider mockCreds\<rparr>, None), world st0)"
  by (simp add: testEnv_def mockLoad_def)


lemma role_calls:
  assumes "LoadDefaultConfig env [WithRegion region] (world st) = ((cfg, None), w1)"
  shows "(\<exists>rest. calls (snd (GenerateAuthTokenFromRole env region roleArn stsSessionName st)) =
           calls st @ [CallLoadDefaultConfig [WithRegion region],
              CallAssumeRole (cfgRegion cfg)
                \<lparr>RoleArn = roleArn,
                 RoleSessionName = (if stsSessionName = [] then DefaultSessionName else stsSessionName)\<rparr>]
             @ rest
         \<and> (\<forall>k \<in> set rest. is_signing_call k))"
proof -
  let ?s = "if stsSessionName = [] then DefaultSessionName else stsSessionName"
  let ?l = "loadCredentialsFromRoleArn env region roleArn ?s st"
  have l: "calls (snd ?l) = calls st @ [CallLoadDefaultConfig [WithRegion region],
              CallAssumeRole (cfgRegion cfg) \<lparr>RoleArn = roleArn, RoleSessionName = ?s\<rparr>]"
    by (rule loadCredentialsFromRoleArn_calls(1)[OF assms])
  obtain r st1 where r: "?l = (r, st1)" by (cases ?l)
  show "\<exists>rest. calls (snd (GenerateAuthTokenFromRole env region roleArn stsSessionName st)) =
           calls st @ [CallLoadDefaultConfig [WithRegion region],
              CallAssumeRole (cfgRegion cfg) \<lparr>RoleArn = roleArn, RoleSessionName = ?s\<rparr>] @ rest
         \<and> (\<forall>k \<in> set rest. is_signing_call k)"
  proof (cases r)
    case (Panics m)
    with r l show ?thesis by (simp add: GenerateAuthTokenFromRole_def)
  next
    case (Returns p)
    obtain c e where p: "p = (c, e)" by (cases p)
    show ?thesis
    proof (cases e)
      case (Some err)
      with r l Returns p show ?thesis by (simp add: GenerateAuthTokenFromRole_def)
    next
      case None
      from constructAuthToken_calls[of env region c st1]
      obtain rest where "calls (snd (constructAuthToken env region c st1)) = calls st1 @ rest"
        and "\<forall>k \<in> set rest. is_signing_call k" by blast
      with r l Returns p None show ?thesis by (simp add: GenerateAuthTokenFromRole_def)
    qed
  qed
qed




text \<open>
  C7. \<open>GenerateAuthTokenFromRole\<close> makes its assume-role request under the session name it
  was given, or under \<open>DefaultSessionName\<close> (\<^verbatim>\<open>MSKSASLDefaultSession\<close>) when the given name is
  empty. Once the configuration has loaded, what the entry point returns is decided by
  \<^verbatim>\<open>AssumeRole\<close> applied to the input with that session name: its error comes back wrapped,
  and the credentials it hands out are the ones the token is made with. That request is the
  second outside call, and every call after it belongs to signing.
\<close>

theorem default_session_name:
  "DefaultSessionName = ''MSKSASLDefaultSession''
   \<and> (LoadDefaultConfig env [WithRegion region] (world st) = ((cfg, None), w1)
        \<and> AssumeRole env (sts_NewFromConfig cfg)
             \<lparr>RoleArn = roleArn,
              RoleSessionName =
                (if stsSessionName = [] then ''MSKSASLDefaultSession'' else stsSessionName)\<rparr>
             w1 = ((out, Some e), w2) \<longrightarrow>
      GenerateAuthTokenFromRole env region roleArn stsSessionName st =
        (Returns ([], Some (WrapError ''failed to load credentials: ''
                             (WrapError (''unable to assume role, '' @ roleArn @ '': '') e))),
         st\<lparr>world := w2,
            calls := calls st @ [CallLoadDefaultConfig [WithRegion region],
              CallAssumeRole (cfgRegion cfg)
                \<lparr>RoleArn = roleArn,
                 RoleSessionName =
                   (if stsSessionName = [] then ''MSKSASLDefaultSession'' else stsSessionName)\<rparr>]\<rparr>))
   \<and> (LoadDefaultConfig env [WithRegion region] (world st) = ((cfg, None), w1)
        \<and> AssumeRole env (sts_NewFromConfig cfg)
             \<lparr>RoleArn = roleArn,
              RoleSessionName =
                (if stsSessionName = [] then ''MSKSASLDefaultSession'' else stsSessionName)\<rparr>
             w1
            = ((Some \<lparr>outCredentials = Some \<lparr>stsAccessKeyId = Some keyId,
                  stsSecretAccessKey = Some secret, stsSessionToken = Some token\<rparr>\<rparr>, None), w2) \<longrightarrow>
      GenerateAuthTokenFromRole env region roleArn stsSessionName st =
        constructAuthToken env region
          (Some \<lparr>AccessKeyID = keyId, SecretAccessKey = secret, SessionToken = token\<rparr>)
          (st\<lparr>world := w2,
              calls := calls st @ [CallLoadDefaultConfig [WithRegion region],
                CallAssumeRole (cfgRegion cfg)
                  \<lparr>RoleArn = roleArn,
                   RoleSessionName =
                     (if stsSessionName = [] then ''MSKSASLDefaultSession'' else stsSessionName)\<rparr>]\<rparr>))
   \<and> (LoadDefaultConfig env [WithRegion region] (world st) = ((cfg, None), w1) \<longrightarrow>
        (\<exists>rest. calls (snd (GenerateAuthTokenFromRole env region roleArn stsSessionName st)) =
           calls st @ [CallLoadDefaultConfig [WithRegion region],
              CallAssumeRole (cfgRegion cfg)
                \<lparr>RoleArn = roleArn,
                 RoleSessionName =
                   (if stsSessionName = [] then ''MSKSASLDefaultSession'' else stsSessionName)\<rparr>]
             @ rest
         \<and> (\<forall>k \<in> set rest. is_signing_call k)))"
proof (intro conjI)
  show "DefaultSessionName = ''MSKSASLDefaultSession''" by (simp add: DefaultSessionName_def)
  show "LoadDefaultConfig env [WithRegion region] (world st) = ((cfg, None), w1)
        \<and> AssumeRole env (sts_NewFromConfig cfg)
             \<lparr>RoleArn = roleArn,
              RoleSessionName =
                (if stsSessionName = [] then ''MSKSASLDefaultSession'' else stsSessionName)\<rparr>
             w1 = ((out, Some e), w2) \<longrightarrow>
      GenerateAuthTokenFromRole env region roleArn stsSessionName st =
        (Returns ([], Some (WrapError ''failed to load credentials: ''
                             (WrapError (''unable to assume role, '' @ roleArn @ '': '') e))),
         st\<lparr>world := w2,
            calls := calls st @ [CallLoadDefaultConfig [WithRegion region],
              CallAssumeRole (cfgRegion cfg)
                \<lparr>RoleArn = roleArn,
                 RoleSessionName =
                   (if stsSessionName = [] then ''MSKSASLDefaultSession'' else stsSessionName)\<rparr>]\<rparr>)"
    using sf_role_assume[of env region st cfg w1 roleArn stsSessionName out e w2]
    by (simp only: DefaultSessionName_def)
  show "LoadDefaultConfig env [WithRegion region] (world st) = ((cfg, None), w1)
        \<and> AssumeRole env (sts_NewFromConfig cfg)
             \<lparr>RoleArn = roleArn,
              RoleSessionName =
                (if stsSessionName = [] then ''MSKSASLDefaultSession'' else stsSessionName)\<rparr>
             w1
            = ((Some \<lparr>outCredentials = Some \<lparr>stsAccessKeyId = Some keyId,
                  stsSecretAccessKey = Some secret, stsSessionToken = Some token\<rparr>\<rparr>, None), w2) \<longrightarrow>
      GenerateAuthTokenFromRole env region roleArn stsSessionName st =
        constructAuthToken env region
          (Some \<lparr>AccessKeyID = keyId, SecretAccessKey = secret, SessionToken = token\<rparr>)
          (st\<lparr>world := w2,
              calls := calls st @ [CallLoadDefaultConfig [WithRegion region],
                CallAssumeRole (cfgRegion cfg)
                  \<lparr>RoleArn = roleArn,
                   RoleSessionName =
                     (if stsSessionName = [] then ''MSKSASLDefaultSession'' else stsSessionName)\<rparr>]\<rparr>)"
    using sf_role_ok[of env region st cfg w1 roleArn stsSessionName keyId secret token w2]
    by (simp only: DefaultSessionName_def)
  show "LoadDefaultConfig env [WithRegion region] (world st) = ((cfg, None), w1) \<longrightarrow>
        (\<exists>rest. calls (snd (GenerateAuthTokenFromRole env region roleArn stsSessionName st)) =
           calls st @ [CallLoadDefaultConfig [WithRegion region],
              CallAssumeRole (cfgRegion cfg)
                \<lparr>RoleArn = roleArn,
                 RoleSessionName =
                   (if stsSessionName = [] then ''MSKSASLDefaultSession'' else stsSessionName)\<rparr>]
             @ rest
         \<and> (\<forall>k \<in> set rest. is_signing_call k))"
    using role_calls[of env region st cfg w1 roleArn stsSessionName]
    unfolding DefaultSessionName_def by blast
qed


text \<open>An STS that refuses and names the session it was asked for, with the empty name and
  with a name given; and the STS that hands out credentials, with the empty name.\<close>

theorem default_session_name_witness:
  "GenerateAuthTokenFromRole deniedRoleEnv TestRegion testRoleArn [] st0 =
     (Returns ([], Some (WrapError ''failed to load credentials: ''
        (WrapError (''unable to assume role, '' @ testRoleArn @ '': '')
           (ErrorString ''AccessDenied for session MSKSASLDefaultSession'')))),
      st0\<lparr>calls := [CallLoadDefaultConfig [WithRegion TestRegion],
         CallAssumeRole TestRegion
           \<lparr>RoleArn = testRoleArn, RoleSessionName = ''MSKSASLDefaultSession''\<rparr>]\<rparr>)
   \<and> GenerateAuthTokenFromRole deniedRoleEnv TestRegion testRoleArn ''my-session'' st0 =
     (Returns ([], Some (WrapError ''failed to load credentials: ''
        (WrapError (''unable to assume role, '' @ testRoleArn @ '': '')
           (ErrorString ''AccessDenied for session my-session'')))),
      st0\<lparr>calls := [CallLoadDefaultConfig [WithRegion TestRegion],
         CallAssumeRole TestRegion \<lparr>RoleArn = testRoleArn, RoleSessionName = ''my-session''\<rparr>]\<rparr>)
   \<and> GenerateAuthTokenFromRole testEnv TestRegion testRoleArn [] st0 =
       constructAuthToken testEnv TestRegion
         (Some \<lparr>AccessKeyID = ''ROLE-ACCESS-KEY'', SecretAccessKey = ''ROLE-SECRET-KEY'',
                 SessionToken = ''ROLE-SESSION-TOKEN''\<rparr>)
         (st0\<lparr>calls := [CallLoadDefaultConfig [WithRegion TestRegion],
            CallAssumeRole TestRegion
              \<lparr>RoleArn = testRoleArn, RoleSessionName = ''MSKSASLDefaultSession''\<rparr>]\<rparr>)"
proof (intro conjI)
  show "GenerateAuthTokenFromRole deniedRoleEnv TestRegion testRoleArn [] st0 =
     (Returns ([], Some (WrapError ''failed to load credentials: ''
        (WrapError (''unable to assume role, '' @ testRoleArn @ '': '')
           (ErrorString ''AccessDenied for session MSKSASLDefaultSession'')))),
      st0\<lparr>calls := [CallLoadDefaultConfig [WithRegion TestRegion],
         CallAssumeRole TestRegion
           \<lparr>RoleArn = testRoleArn, RoleSessionName = ''MSKSASLDefaultSession''\<rparr>]\<rparr>)"
    using default_session_name
      [where env = deniedRoleEnv and region = TestRegion and st = st0
         and roleArn = testRoleArn and stsSessionName = "[]"
         and cfg = "\<lparr>cfgRegion = TestRegion, cfgCredentials = MockCredentialsProvider mockCreds\<rparr>"
         and out = None and e = "ErrorString ''AccessDenied for session MSKSASLDefaultSession''"
         and ?w1.0 = "world st0" and ?w2.0 = "world st0",
       THEN conjunct2, THEN conjunct1]
    by (simp add: deniedRoleEnv_def testEnv_def mockLoad_def st0_def)
next
  show "GenerateAuthTokenFromRole deniedRoleEnv TestRegion testRoleArn ''my-session'' st0 =
     (Returns ([], Some (WrapError ''failed to load credentials: ''
        (WrapError (''unable to assume role, '' @ testRoleArn @ '': '')
           (ErrorString ''AccessDenied for session my-session'')))),
      st0\<lparr>calls := [CallLoadDefaultConfig [WithRegion TestRegion],
         CallAssumeRole TestRegion \<lparr>RoleArn = testRoleArn, RoleSessionName = ''my-session''\<rparr>]\<rparr>)"
    using default_session_name
      [where env = deniedRoleEnv and region = TestRegion and st = st0
         and roleArn = testRoleArn and stsSessionName = "''my-session''"
         and cfg = "\<lparr>cfgRegion = TestRegion, cfgCredentials = MockCredentialsProvider mockCreds\<rparr>"
         and out = None and e = "ErrorString ''AccessDenied for session my-session''"
         and ?w1.0 = "world st0" and ?w2.0 = "world st0",
       THEN conjunct2, THEN conjunct1]
    by (simp add: deniedRoleEnv_def testEnv_def mockLoad_def st0_def)
next
  show "GenerateAuthTokenFromRole testEnv TestRegion testRoleArn [] st0 =
       constructAuthToken testEnv TestRegion
         (Some \<lparr>AccessKeyID = ''ROLE-ACCESS-KEY'', SecretAccessKey = ''ROLE-SECRET-KEY'',
                 SessionToken = ''ROLE-SESSION-TOKEN''\<rparr>)
         (st0\<lparr>calls := [CallLoadDefaultConfig [WithRegion TestRegion],
            CallAssumeRole TestRegion
              \<lparr>RoleArn = testRoleArn, RoleSessionName = ''MSKSASLDefaultSession''\<rparr>]\<rparr>)"
    using default_session_name
      [where env = testEnv and region = TestRegion and st = st0
         and roleArn = testRoleArn and stsSessionName = "[]"
         and cfg = "\<lparr>cfgRegion = TestRegion, cfgCredentials = MockCredentialsProvider mockCreds\<rparr>"
         and keyId = "''ROLE-ACCESS-KEY''" and secret = "''ROLE-SECRET-KEY''"
         and token = "''ROLE-SESSION-TOKEN''"
         and ?w1.0 = "world st0" and ?w2.0 = "world st0",
       THEN conjunct2, THEN conjunct2, THEN conjunct1]
    by (simp add: testEnv_def mockLoad_def mockAssumeRole_def st0_def)
qed


subsection \<open>The region of the STS client\<close>

text \<open>
  C9, as the code has it. \<open>loadCredentialsFromRoleArn\<close> takes no STS region: it loads the
  configuration with the main region as its only option, makes the STS client from that
  configuration (so the client has the configuration's region), and calls \<^verbatim>\<open>AssumeRole\<close> on
  that client. No other configuration is loaded.
\<close>

theorem sts_client_main_region:
  assumes "LoadDefaultConfig env [WithRegion region] (world st) = ((cfg, None), w1)"
  shows "calls (snd (loadCredentialsFromRoleArn env region roleArn session st)) =
           calls st @ [CallLoadDefaultConfig [WithRegion region],
                       CallAssumeRole (clientRegion (sts_NewFromConfig cfg))
                         \<lparr>RoleArn = roleArn, RoleSessionName = session\<rparr>]
       \<and> clientRegion (sts_NewFromConfig cfg) = cfgRegion cfg
       \<and> (\<exists>out err w2.
           AssumeRole env (sts_NewFromConfig cfg) \<lparr>RoleArn = roleArn, RoleSessionName = session\<rparr> w1
             = ((out, err), w2)
           \<and> world (snd (loadCredentialsFromRoleArn env region roleArn session st)) = w2)"
  using loadCredentialsFromRoleArn_calls[OF assms, of roleArn session]
  by (simp add: sts_NewFromConfig_def)


text \<open>On the test doubles, whose loader gives the configuration the region of its option.\<close>

theorem sts_client_main_region_witness:
  "calls (snd (loadCredentialsFromRoleArn testEnv TestRegion testRoleArn ''session'' st0)) =
     [CallLoadDefaultConfig [WithRegion ''us-west-2''],
      CallAssumeRole ''us-west-2'' \<lparr>RoleArn = testRoleArn, RoleSessionName = ''session''\<rparr>]"
  using sts_client_main_region[OF mockLoad_testEnv, of testRoleArn "''session''"]
  by (simp add: st0_def sts_NewFromConfig_def TestRegion_def)


text \<open>
  C9 as stated fails. The options \<open>roleOptions\<close> are valid and set the STS region
  \<^verbatim>\<open>us-east-1\<close> beside the main region \<^verbatim>\<open>us-west-2\<close>; the specification's client region is
  \<^verbatim>\<open>us-east-1\<close>. The code, called with the main region, the role and the session name of these
  options (it has no parameter for more), makes its STS client for \<^verbatim>\<open>us-west-2\<close>.
\<close>

theorem sts_region_counterexample:
  "Validate (Some roleOptions) = None
   \<and> Region roleOptions = Some TestRegion
   \<and> RoleARN roleOptions = Some testRoleArn
   \<and> STSSessionName roleOptions = Some ''session''
   \<and> stsClientRegion_spec roleOptions = Some ''us-east-1''
   \<and> calls (snd (loadCredentialsFromRoleArn testEnv TestRegion testRoleArn ''session'' st0)) =
       [CallLoadDefaultConfig [WithRegion ''us-west-2''],
        CallAssumeRole ''us-west-2'' \<lparr>RoleArn = testRoleArn, RoleSessionName = ''session''\<rparr>]
   \<and> CallAssumeRole ''us-east-1'' \<lparr>RoleArn = testRoleArn, RoleSessionName = ''session''\<rparr>
       \<notin> set (calls (snd (loadCredentialsFromRoleArn testEnv TestRegion testRoleArn ''session'' st0)))"
  by (simp add: load_eval double_eval Validate_def credentialsArgumentsCount_def stsClientRegion_spec_def)


subsection \<open>Strings without a separator\<close>

lemma strings_Cut_absent: "sep \<notin> set s \<Longrightarrow> strings_Cut s sep = (s, [], False)"
  by (induction s) auto

lemma strings_Cut_first: "sep \<notin> set a \<Longrightarrow> strings_Cut (a @ sep # b) sep = (a, b, True)"
  by (induction a) auto

lemma strings_LastIndex_absent: "sep \<notin> set s \<Longrightarrow> strings_LastIndex s sep = None"
  by (induction s) auto

subsection \<open>The digits of a number\<close>

lemma digits_nth: "k < 10 \<Longrightarrow> byte_of (digits ! k) = 48 + k"
proof -
  assume "k < 10"
  then have "k \<in> {0, 1, 2, 3, 4, 5, 6, 7, 8, 9}" by auto
  then show ?thesis by (auto simp: digits_def byte_of_def)
qed

lemma digits_nth_mem: "k < 10 \<Longrightarrow> digits ! k \<in> set digits"
  by (rule nth_mem) (simp add: digits_def)

lemma formatBits_set: "set (formatBits n) \<subseteq> set digits"
proof (induction n rule: formatBits.induct)
  case (1 n)
  show ?case
  proof (cases "n < 10")
    case True
    then show ?thesis by (subst formatBits.simps) (simp add: digits_nth_mem)
  next
    case False
    with 1 show ?thesis by (subst formatBits.simps) (simp add: digits_nth_mem)
  qed
qed

lemma formatBits_nonempty: "formatBits n \<noteq> []"
  by (subst formatBits.simps) simp

lemma FormatInt_set: "set (strconv_FormatInt i) \<subseteq> insert CHR ''-'' (set digits)"
  using formatBits_set by (auto simp: strconv_FormatInt_def)

lemma FormatInt_nonempty: "strconv_FormatInt i \<noteq> []"
  by (simp add: strconv_FormatInt_def formatBits_nonempty)

lemma FormatInt_last: "last (strconv_FormatInt i) \<in> set digits"
proof -
  have "last (formatBits n) \<in> set digits" for n
    using formatBits_set[of n] formatBits_nonempty[of n] last_in_set by blast
  then show ?thesis by (simp add: strconv_FormatInt_def formatBits_nonempty)
qed


subsection \<open>Host-name bytes pass escaping and parsing unchanged\<close>


lemma is_alnum_range:
  "is_alnum c \<Longrightarrow> 48 \<le> byte_of c \<and> byte_of c \<le> 122"
  by (auto simp: is_alnum_def Let_def)

lemma digits_plain: "c \<in> set digits \<Longrightarrow> plain c"
  unfolding digits_def plain_def is_alnum_def byte_of_def by auto

lemma FormatInt_plain: "c \<in> set (strconv_FormatInt i) \<Longrightarrow> plain c"
  using FormatInt_set[of i] digits_plain by (auto simp: plain_def)

lemma special_not_plain: "x \<in> set ''#?/@:[]%+&=; '' \<Longrightarrow> \<not> plain x"
  unfolding plain_def is_alnum_def byte_of_def by auto

lemma plain_not_special:
  assumes "plain c"
  shows "c \<notin> set ''#?/@:[]%+&=; ''" and "\<not> (byte_of c < 32 \<or> byte_of c = 127)"
    and "\<not> shouldEscape c mode"
proof -
  show "c \<notin> set ''#?/@:[]%+&=; ''"
    using assms special_not_plain[of c] by blast
  show "\<not> (byte_of c < 32 \<or> byte_of c = 127)"
    using assms is_alnum_range[of c] unfolding plain_def by (auto simp: byte_of_def)
  show "\<not> shouldEscape c mode"
  proof (cases "is_alnum c")
    case True
    then show ?thesis by (simp add: shouldEscape_def)
  next
    case False
    with assms have "c = CHR ''-'' \<or> c = CHR ''.''" by (simp add: plain_def)
    then show ?thesis by (auto simp: shouldEscape_def is_alnum_def byte_of_def)
  qed
qed

lemma escape_plain: "\<forall>c \<in> set s. plain c \<Longrightarrow> escape s mode = s"
proof (induction s)
  case Nil
  then show ?case by (simp add: escape_def)
next
  case (Cons c s)
  then have "plain c" by simp
  from plain_not_special[OF this] have "escape_byte mode c = [c]"
    by (simp add: escape_byte_def)
  with Cons show ?case by (simp add: escape_def)
qed

lemma unescape_check_plain: "\<forall>c \<in> set s. plain c \<Longrightarrow> unescape_check s mode = None"
proof (induction s)
  case Nil
  then show ?case by simp
next
  case (Cons c s)
  then have "plain c" by simp
  from plain_not_special[OF this] Cons show ?case by simp
qed

lemma unescape_bytes_plain: "\<forall>c \<in> set s. plain c \<Longrightarrow> unescape_bytes s mode = s"
proof (induction s)
  case Nil
  then show ?case by simp
next
  case (Cons c s)
  then have "plain c" by simp
  from plain_not_special(1)[OF this] Cons show ?case by simp
qed

lemma unescape_plain: "\<forall>c \<in> set s. plain c \<Longrightarrow> unescape s mode = (s, None)"
  by (simp add: unescape_def unescape_check_plain unescape_bytes_plain)

lemma plain_absent:
  assumes "\<forall>c \<in> set s. plain c" and "x \<in> set ''#?/@:[]%+&=; ''"
  shows "x \<notin> set s"
  using assms plain_not_special(1) by blast

lemma parseHost_plain:
  assumes "\<forall>c \<in> set h. plain c"
  shows "parseHost h = (h, None)"
proof -
  have a: "CHR '':'' \<notin> set h" using plain_absent[OF assms] by simp
  have b: "\<not> strings_HasPrefix h ''[''"
    using plain_absent[OF assms, of "CHR ''[''"] by (cases h) (auto simp: strings_HasPrefix_def)
  show ?thesis
    by (simp add: parseHost_def b strings_LastIndex_absent[OF a] unescape_plain[OF assms])
qed

lemma parseAuthority_plain:
  assumes "\<forall>c \<in> set h. plain c"
  shows "parseAuthority h = ((None, h), None)"
proof -
  have a: "CHR ''@'' \<notin> set h" using plain_absent[OF assms] by simp
  show ?thesis
    by (simp add: parseAuthority_def strings_LastIndex_absent[OF a] parseHost_plain[OF assms])
qed

lemma removeEmptyPort_plain:
  assumes "\<forall>c \<in> set h. plain c"
  shows "removeEmptyPort h = h"
proof -
  have a: "CHR '':'' \<notin> set h" using plain_absent[OF assms] by simp
  show ?thesis by (simp add: removeEmptyPort_def strings_LastIndex_absent[OF a])
qed


subsection \<open>Printing and parsing a URL with scheme, host, root path and query\<close>

lemma HasSuffix_single: "s \<noteq> [] \<Longrightarrow> strings_HasSuffix s [c] = (last s = c)"
proof -
  assume "s \<noteq> []"
  then have s: "s = butlast s @ [last s]" by simp
  have "drop (length s - 1) s = [last s]"
    by (subst (2) s) simp
  with \<open>s \<noteq> []\<close> show ?thesis
    by (cases s) (auto simp: strings_HasSuffix_def)
qed

lemma URL_String_https:
  assumes "is_hostname host" and "q \<noteq> []"
  shows "URL_String (zeroURL\<lparr>Host := host, Scheme := ''https'', Path := ''/'', RawQuery := q\<rparr>)
           = ''https://'' @ host @ ''/?'' @ q"
proof -
  have h: "escape host encodeHost = host"
    using assms(1) by (simp add: is_hostname_def escape_plain)
  have p: "escape ''/'' encodePath = ''/''"
    by (simp add: esc_eval byte_of_def)
  show ?thesis
    using assms(2)
    by (simp add: URL_String_def URL_hier_def URL_authority_def EscapedPath_def zeroURL_def
          strings_Contains_def h p)
qed

lemma url_Parse_https:
  assumes "is_hostname host" and "q \<noteq> []" and "last q \<noteq> CHR ''?''"
    and "CHR ''#'' \<notin> set q" and "\<not> stringContainsCTLByte q"
  shows "url_Parse (''https://'' @ host @ ''/?'' @ q)
           = (Some (zeroURL\<lparr>Host := host, Scheme := ''https'', Path := ''/'', RawQuery := q\<rparr>), None)"
proof -
  have hp: "\<forall>c \<in> set host. plain c" using assms(1) by (simp add: is_hostname_def)
  have nohash: "CHR ''#'' \<notin> set (''https://'' @ host @ ''/?'' @ q)"
    using plain_absent[OF hp, of "CHR ''#''"] assms(4) by simp
  have ctl: "\<not> stringContainsCTLByte (''https://'' @ host @ ''/?'' @ q)"
    using assms(5) plain_not_special(2) hp
    by (auto simp: stringContainsCTLByte_def byte_of_def)
  have star: "''https://'' @ host @ ''/?'' @ q \<noteq> ''*''" by simp
  have sch: "getScheme (''https://'' @ host @ ''/?'' @ q) = ((''https'', ''//'' @ host @ ''/?'' @ q), None)"
    by (simp add: getScheme_def byte_of_def)
  have low: "strings_ToLower ''https'' = ''https''"
    by (simp add: strings_ToLower_def lower_byte_def byte_of_def)
  have suf: "\<not> strings_HasSuffix (''//'' @ host @ ''/?'' @ q) ''?''"
    using assms(2,3) by (subst HasSuffix_single) auto
  have cutq: "strings_Cut (''//'' @ host @ ''/?'' @ q) CHR ''?'' = (''//'' @ host @ ''/'', q, True)"
    using strings_Cut_first[of "CHR ''?''" "''//'' @ host @ ''/''" q]
      plain_absent[OF hp, of "CHR ''?''"] by simp
  have pq: "parse_query (zeroURL\<lparr>Scheme := ''https''\<rparr>) (''//'' @ host @ ''/?'' @ q)
              = (zeroURL\<lparr>Scheme := ''https'', RawQuery := q\<rparr>, ''//'' @ host @ ''/'')"
    by (simp only: parse_query_def suf cutq simp_thms if_False prod.case)
  have cuth: "strings_Cut (host @ ''/'') CHR ''/'' = (host, [], True)"
    using strings_Cut_first[of "CHR ''/''" host "[]"] plain_absent[OF hp, of "CHR ''/''"] by simp
  have sp: "setPath u ''/'' = (u\<lparr>Path := ''/'', RawPath := []\<rparr>, None)" for u :: URL
    by (simp add: setPath_def esc_eval byte_of_def)
  have pr: "parse_rest (zeroURL\<lparr>Scheme := ''https'', RawQuery := q\<rparr>) (''//'' @ host @ ''/'')
              = (zeroURL\<lparr>Host := host, Scheme := ''https'', Path := ''/'', RawQuery := q\<rparr>, None)"
    by (simp add: parse_rest_def strings_HasPrefix_def cuth parseAuthority_plain[OF hp] sp zeroURL_def)
  have "parse (''https://'' @ host @ ''/?'' @ q)
          = (zeroURL\<lparr>Host := host, Scheme := ''https'', Path := ''/'', RawQuery := q\<rparr>, None)"
    by (simp only: parse_def ctl star if_False sch prod.case option.case low pq pr)
  then show ?thesis
    by (simp only: url_Parse_def strings_Cut_absent[OF nohash] prod.case option.case simp_thms if_True)
qed


subsection \<open>The decimal rendering denotes the number\<close>

lemma decimal_nat_snoc: "decimal_nat (a @ [c]) = 10 * decimal_nat a + (byte_of c - 48)"
  by (simp add: decimal_nat_def)

lemma decimal_nat_formatBits: "decimal_nat (formatBits n) = n"
proof (induction n rule: formatBits.induct)
  case (1 n)
  show ?case
  proof (cases "n < 10")
    case True
    then show ?thesis
      by (subst formatBits.simps) (simp add: decimal_nat_def digits_nth)
  next
    case False
    have "n mod 10 < 10" by simp
    from digits_nth[OF this] 1[OF False] False show ?thesis
      by (subst formatBits.simps) (simp add: decimal_nat_snoc)
  qed
qed

lemma decimal_value_FormatInt: "decimal_value (strconv_FormatInt i) = i"
proof (cases "i < 0")
  case True
  then show ?thesis
    by (simp add: decimal_value_def strconv_FormatInt_def decimal_nat_formatBits)
next
  case False
  obtain c r where cr: "formatBits (nat i) = c # r"
    using formatBits_nonempty[of "nat i"] by (cases "formatBits (nat i)") auto
  then have "c \<in> set digits" using formatBits_set[of "nat i"] by auto
  then have "c \<noteq> CHR ''-''" by (auto simp: digits_def)
  with False cr decimal_nat_formatBits[of "nat i"] show ?thesis
    by (simp add: decimal_value_def strconv_FormatInt_def)
qed

subsection \<open>The query of the built request\<close>

lemma split_amp_absent: "CHR ''&'' \<notin> set s \<Longrightarrow> split_amp s = (if s = [] then [] else [s])"
  by (induction s) (auto split: list.splits)

lemma split_amp_first: "CHR ''&'' \<notin> set a \<Longrightarrow> split_amp (a @ CHR ''&'' # b) = a # split_amp b"
  by (induction a) auto

lemma QueryEscape_plain: "\<forall>c \<in> set s. plain c \<Longrightarrow> QueryEscape s = s"
  by (simp add: QueryEscape_def escape_plain)

lemma QueryUnescape_plain: "\<forall>c \<in> set s. plain c \<Longrightarrow> QueryUnescape s = (s, None)"
  by (simp add: QueryUnescape_def unescape_plain)

lemma Encode_buildQuery:
  "Values_Encode (buildQuery n) = ''Action=kafka-cluster%3AConnect&X-Amz-Expires='' @ strconv_FormatInt n"
proof -
  have d: "QueryEscape (strconv_FormatInt n) = strconv_FormatInt n"
    using FormatInt_plain by (simp add: QueryEscape_plain)
  have a: "QueryEscape ''Action'' = ''Action''" "QueryEscape ''X-Amz-Expires'' = ''X-Amz-Expires''"
    "QueryEscape ''kafka-cluster:Connect'' = ''kafka-cluster%3AConnect''"
    by (simp_all add: esc_eval byte_of_def)
  show ?thesis
    by (simp add: Values_Encode_def buildQuery_def encode_key_def Values_lookup_def
          ActionType_def ActionName_def ExpiresQueryKey_def a d)
qed

lemma ParseQuery_built:
  assumes "\<forall>c \<in> set d. plain c"
  shows "ParseQuery (''Action=kafka-cluster%3AConnect&X-Amz-Expires='' @ d)
           = ([(''Action'', [''kafka-cluster:Connect'']), (''X-Amz-Expires'', [d])], None)"
proof -
  have amp: "CHR ''&'' \<notin> set (''X-Amz-Expires='' @ d)"
    using plain_absent[OF assms, of "CHR ''&''"] by simp
  have sp: "split_amp (''Action=kafka-cluster%3AConnect&X-Amz-Expires='' @ d)
              = [''Action=kafka-cluster%3AConnect'', ''X-Amz-Expires='' @ d]"
    using split_amp_first[of "''Action=kafka-cluster%3AConnect''" "''X-Amz-Expires='' @ d"]
      split_amp_absent[OF amp] by simp
  have semi: "\<not> strings_Contains (''X-Amz-Expires='' @ d) CHR '';''"
    using plain_absent[OF assms, of "CHR '';''"] by (simp add: strings_Contains_def)
  have cut: "strings_Cut (''X-Amz-Expires='' @ d) CHR ''='' = (''X-Amz-Expires'', d, True)"
    using strings_Cut_first[of "CHR ''=''" "''X-Amz-Expires''" d] by simp
  have k: "QueryUnescape ''X-Amz-Expires'' = (''X-Amz-Expires'', None)"
    by (simp add: esc_eval byte_of_def)
  have p1: "parseQuery [] None [''Action=kafka-cluster%3AConnect'', x]
              = parseQuery [(''Action'', [''kafka-cluster:Connect''])] None [x]" for x
    by (simp add: esc_eval values_eval str_eval)
  have p2: "parseQuery [(''Action'', [''kafka-cluster:Connect''])] None [''X-Amz-Expires='' @ d]
              = ([(''Action'', [''kafka-cluster:Connect'']), (''X-Amz-Expires'', [d])], None)"
    by (simp only: parseQuery.simps semi if_False cut prod.case k option.case
          QueryUnescape_plain[OF assms])
       (simp add: Values_lookup_def)
  show ?thesis
    by (simp only: ParseQuery_def sp p1 p2)
qed


subsection \<open>The built request\<close>

text \<open>
  C2. For every expiry and every endpoint host name (a string of host-name bytes),
  \<open>buildRequest\<close> returns, with no error, the GET request whose URL has the scheme
  \<^verbatim>\<open>https\<close>, that host and the path \<^verbatim>\<open>/\<close>, and prints as \<^verbatim>\<open>https://<host>/?<query>\<close>. The
  query is \<^verbatim>\<open>Action=kafka-cluster%3AConnect&X-Amz-Expires=<expiry>\<close>: it parses into exactly the
  two parameters \<open>Action\<close> (with the value \<^verbatim>\<open>kafka-cluster:Connect\<close>) and \<open>X-Amz-Expires\<close>,
  it is the canonical encoding of these two (keys in sorted order, values percent-encoded),
  and the expiry is written in decimal.
\<close>

theorem buildRequest_hostname:
  assumes "is_hostname host"
  shows "buildRequest n host =
      (Some \<lparr>Method = ''GET'',
         ReqURL = zeroURL\<lparr>Host := host, Scheme := ''https'', Path := ''/'',
           RawQuery := ''Action=kafka-cluster%3AConnect&X-Amz-Expires='' @ strconv_FormatInt n\<rparr>,
         ReqHost = host\<rparr>, None)
    \<and> URL_String (zeroURL\<lparr>Host := host, Scheme := ''https'', Path := ''/'',
           RawQuery := ''Action=kafka-cluster%3AConnect&X-Amz-Expires='' @ strconv_FormatInt n\<rparr>)
        = ''https://'' @ host @ ''/?Action=kafka-cluster%3AConnect&X-Amz-Expires='' @ strconv_FormatInt n
    \<and> ParseQuery (''Action=kafka-cluster%3AConnect&X-Amz-Expires='' @ strconv_FormatInt n)
        = ([(ActionType, [ActionName]), (ExpiresQueryKey, [strconv_FormatInt n])], None)
    \<and> Values_Encode [(ActionType, [ActionName]), (ExpiresQueryKey, [strconv_FormatInt n])]
        = ''Action=kafka-cluster%3AConnect&X-Amz-Expires='' @ strconv_FormatInt n
    \<and> sorted [ActionType, ExpiresQueryKey]
    \<and> ActionName = ''kafka-cluster:Connect''
    \<and> decimal_value (strconv_FormatInt n) = n"
proof -
  let ?q = "''Action=kafka-cluster%3AConnect&X-Amz-Expires='' @ strconv_FormatInt n"
  let ?u = "zeroURL\<lparr>Host := host, Scheme := ''https'', Path := ''/'', RawQuery := ?q\<rparr>"
  have dp: "\<forall>c \<in> set (strconv_FormatInt n). plain c" using FormatInt_plain by blast
  have hp: "\<forall>c \<in> set host. plain c" using assms by (simp add: is_hostname_def)
  have q1: "?q \<noteq> []" by simp
  have q2: "last ?q \<noteq> CHR ''?''"
    using FormatInt_last[of n] FormatInt_nonempty[of n] by (auto simp: digits_def)
  have q3: "CHR ''#'' \<notin> set ?q"
    using plain_absent[OF dp, of "CHR ''#''"] by simp
  have q4: "\<not> stringContainsCTLByte ?q"
    using plain_not_special(2) dp by (auto simp: stringContainsCTLByte_def byte_of_def)
  have str: "URL_String ?u = ''https://'' @ host @ ''/?'' @ ?q"
    by (rule URL_String_https[OF assms q1])
  have au: "authURL n host = ?u"
    by (simp only: authURL_def Encode_buildQuery)
  have "buildRequest n host = (Some \<lparr>Method = ''GET'', ReqURL = ?u, ReqHost = host\<rparr>, None)"
    by (simp only: buildRequest_def au str http_NewRequest_GET_def
          url_Parse_https[OF assms q1 q2 q3 q4] prod.case option.case)
       (simp add: zeroURL_def removeEmptyPort_plain[OF hp])
  moreover have "URL_String ?u = ''https://'' @ host @ ''/?Action=kafka-cluster%3AConnect&X-Amz-Expires='' @ strconv_FormatInt n"
    using str by simp
  moreover have "ParseQuery ?q = ([(ActionType, [ActionName]), (ExpiresQueryKey, [strconv_FormatInt n])], None)"
    by (simp only: ParseQuery_built[OF dp] ActionType_def ActionName_def ExpiresQueryKey_def)
  moreover have "Values_Encode [(ActionType, [ActionName]), (ExpiresQueryKey, [strconv_FormatInt n])] = ?q"
    using Encode_buildQuery[of n] by (simp only: buildQuery_def)
  moreover have "sorted [ActionType, ExpiresQueryKey]"
    by (simp add: ActionType_def ExpiresQueryKey_def)
  moreover have "ActionName = ''kafka-cluster:Connect''" by (simp add: ActionName_def)
  moreover have "decimal_value (strconv_FormatInt n) = n" by (rule decimal_value_FormatInt)
  ultimately show ?thesis by blast
qed

text \<open>The endpoint and expiry of the package's tests.\<close>

lemma TestEndpoint_hostname: "is_hostname TestEndpoint"
  by (simp add: is_hostname_def TestEndpoint_def plain_def is_alnum_def byte_of_def)

lemma FormatInt_900: "strconv_FormatInt 900 = ''900''"
  by (simp add: str_eval)

theorem buildRequest_hostname_witness:
  "is_hostname ''kafka.us-west-2.amazonaws.com''
   \<and> buildRequest 900 ''kafka.us-west-2.amazonaws.com'' = (Some testRequest, None)
   \<and> URL_String (ReqURL testRequest) =
       ''https://kafka.us-west-2.amazonaws.com/?Action=kafka-cluster%3AConnect&X-Amz-Expires=900''
   \<and> ParseQuery (RawQuery (ReqURL testRequest)) =
       ([(''Action'', [''kafka-cluster:Connect'']), (''X-Amz-Expires'', [''900''])], None)"
  using buildRequest_hostname[OF TestEndpoint_hostname, of 900] TestEndpoint_hostname
  by (simp add: FormatInt_900 TestEndpoint_def testRequest_def zeroURL_def
        ActionType_def ActionName_def ExpiresQueryKey_def)


subsection \<open>The query of every request that is built\<close>

lemma upperhex_nth_mem: "k < 16 \<Longrightarrow> upperhex ! k \<in> set upperhex"
  by (rule nth_mem) (simp add: upperhex_def)

lemma escape_byte_host_chars:
  "x \<in> set (escape_byte encodeHost c) \<Longrightarrow> x \<noteq> CHR ''#'' \<and> x \<noteq> CHR ''?''"
proof -
  assume x: "x \<in> set (escape_byte encodeHost c)"
  have d: "byte_of c div 16 < 16"
    by (simp add: byte_of_def less_mult_imp_div_less)
  have h: "y \<in> set upperhex \<Longrightarrow> y \<noteq> CHR ''#'' \<and> y \<noteq> CHR ''?''" for y
    by (auto simp: upperhex_def)
  have s: "\<not> shouldEscape c encodeHost \<Longrightarrow> c \<noteq> CHR ''#'' \<and> c \<noteq> CHR ''?''"
    by (auto simp: shouldEscape_def is_alnum_def byte_of_def)
  show ?thesis
  proof (cases "shouldEscape c encodeHost")
    case True
    with x have "x = CHR ''%'' \<or> x = upperhex ! (byte_of c div 16) \<or> x = upperhex ! (byte_of c mod 16)"
      by (auto simp: escape_byte_def)
    with h upperhex_nth_mem[OF d] upperhex_nth_mem[of "byte_of c mod 16"] show ?thesis
      by auto
  next
    case False
    with x s show ?thesis by (auto simp: escape_byte_def)
  qed
qed

lemma escape_host_chars: "CHR ''#'' \<notin> set (escape s encodeHost) \<and> CHR ''?'' \<notin> set (escape s encodeHost)"
  using escape_byte_host_chars by (fastforce simp: escape_def)

lemma parse_rest_RawQuery: "parse_rest u r = (u', None) \<Longrightarrow> RawQuery u' = RawQuery u"
  by (auto simp: parse_rest_def setPath_def split: if_splits prod.splits option.splits)

lemma URL_String_authURL:
  "URL_String (authURL n host) =
     ''https://'' @ escape host encodeHost @ ''/?'' @ Values_Encode (buildQuery n)"
proof -
  have p: "escape ''/'' encodePath = ''/''"
    by (simp add: esc_eval byte_of_def)
  have q: "Values_Encode (buildQuery n) \<noteq> []"
    by (simp add: Encode_buildQuery)
  have e: "host = [] \<Longrightarrow> escape host encodeHost = []" by (simp add: escape_def)
  show ?thesis
    using q e
    by (simp add: URL_String_def URL_hier_def URL_authority_def EscapedPath_def zeroURL_def
          authURL_def strings_Contains_def p)
qed

lemma buildRequest_query:
  assumes "buildRequest n host = (Some req, None)"
  shows "Method req = ''GET''
       \<and> RawQuery (ReqURL req) = ''Action=kafka-cluster%3AConnect&X-Amz-Expires='' @ strconv_FormatInt n"
proof -
  let ?q = "''Action=kafka-cluster%3AConnect&X-Amz-Expires='' @ strconv_FormatInt n"
  let ?E = "escape host encodeHost"
  let ?raw = "''https://'' @ ?E @ ''/?'' @ ?q"
  have dp: "\<forall>c \<in> set (strconv_FormatInt n). plain c" using FormatInt_plain by blast
  have str: "URL_String (authURL n host) = ?raw"
    by (simp only: URL_String_authURL Encode_buildQuery)
  have nohash: "CHR ''#'' \<notin> set ?raw"
    using escape_host_chars[of host] plain_absent[OF dp, of "CHR ''#''"] by simp
  have cut0: "strings_Cut ?raw CHR ''#'' = (?raw, [], False)"
    by (rule strings_Cut_absent[OF nohash])
  have sch: "getScheme ?raw = ((''https'', ''//'' @ ?E @ ''/?'' @ ?q), None)"
    by (simp add: getScheme_def byte_of_def)
  have low: "strings_ToLower ''https'' = ''https''"
    by (simp add: strings_ToLower_def lower_byte_def byte_of_def)
  have q2: "last ?q \<noteq> CHR ''?''"
    using FormatInt_last[of n] FormatInt_nonempty[of n] by (auto simp: digits_def)
  have suf: "\<not> strings_HasSuffix (''//'' @ ?E @ ''/?'' @ ?q) ''?''"
    using q2 by (subst HasSuffix_single) auto
  have cutq: "strings_Cut (''//'' @ ?E @ ''/?'' @ ?q) CHR ''?'' = (''//'' @ ?E @ ''/'', ?q, True)"
    using strings_Cut_first[of "CHR ''?''" "''//'' @ ?E @ ''/''" ?q] escape_host_chars[of host]
    by simp
  have pq: "parse_query (zeroURL\<lparr>Scheme := ''https''\<rparr>) (''//'' @ ?E @ ''/?'' @ ?q)
              = (zeroURL\<lparr>Scheme := ''https'', RawQuery := ?q\<rparr>, ''//'' @ ?E @ ''/'')"
    by (simp only: parse_query_def suf cutq simp_thms if_False prod.case)
  have star: "?raw \<noteq> ''*''" by simp
  obtain u0 e0 where pr: "parse_rest (zeroURL\<lparr>Scheme := ''https'', RawQuery := ?q\<rparr>) (''//'' @ ?E @ ''/'') = (u0, e0)"
    by (cases "parse_rest (zeroURL\<lparr>Scheme := ''https'', RawQuery := ?q\<rparr>) (''//'' @ ?E @ ''/'')")
  have par: "\<not> stringContainsCTLByte ?raw \<Longrightarrow> parse ?raw = (u0, e0)"
    by (simp only: parse_def star if_False sch prod.case option.case low pq pr)
  from assms have nr: "http_NewRequest_GET ?raw = (Some req, None)"
    by (simp only: buildRequest_def str)
  then have up: "\<exists>u. url_Parse ?raw = (Some u, None)
        \<and> req = \<lparr>Method = ''GET'', ReqURL = u\<lparr>Host := removeEmptyPort (Host u)\<rparr>,
                  ReqHost = removeEmptyPort (Host u)\<rparr>"
    by (auto simp: http_NewRequest_GET_def split: prod.splits option.splits)
  then obtain u where u: "url_Parse ?raw = (Some u, None)"
    and req: "req = \<lparr>Method = ''GET'', ReqURL = u\<lparr>Host := removeEmptyPort (Host u)\<rparr>,
                  ReqHost = removeEmptyPort (Host u)\<rparr>" by blast
  from u have pu: "parse ?raw = (u, None)"
    by (simp only: url_Parse_def cut0 prod.case) (auto split: prod.splits option.splits)
  have noctl: "\<not> stringContainsCTLByte ?raw"
  proof
    assume "stringContainsCTLByte ?raw"
    then have "snd (parse ?raw) \<noteq> None" by (simp only: parse_def if_True) simp
    with pu show False by simp
  qed
  from par[OF noctl] pu have "u0 = u" "e0 = None" by simp_all
  with pr parse_rest_RawQuery[of "zeroURL\<lparr>Scheme := ''https'', RawQuery := ?q\<rparr>" "''//'' @ ?E @ ''/''" u]
  have "RawQuery u = ?q" by simp
  with req show ?thesis by simp
qed



subsection \<open>What the entry points return\<close>

lemma addUserAgent_signed:
  "addUserAgent testBuild
     ''https://kafka.us-west-2.amazonaws.com/?Action=kafka-cluster%3AConnect&X-Amz-Expires=900&X-Amz-Algorithm=AWS4-HMAC-SHA256&X-Amz-Signature=00''
   = Returns (''https://kafka.us-west-2.amazonaws.com/?Action=kafka-cluster%3AConnect&User-Agent=aws-msk-iam-sasl-signer-go%2F1.0.4%2Fgo1.20&X-Amz-Algorithm=AWS4-HMAC-SHA256&X-Amz-Expires=900&X-Amz-Signature=00'', None)"
  by (simp add: testBuild_def str_eval esc_eval values_eval parse_eval print_eval signer_eval)

lemma base64_signed: "base64Encode ''https://kafka.us-west-2.amazonaws.com/?Action=kafka-cluster%3AConnect&User-Agent=aws-msk-iam-sasl-signer-go%2F1.0.4%2Fgo1.20&X-Amz-Algorithm=AWS4-HMAC-SHA256&X-Amz-Expires=900&X-Amz-Signature=00'' = ''aHR0cHM6Ly9rYWZrYS51cy13ZXN0LTIuYW1hem9uYXdzLmNvbS8_QWN0aW9uPWthZmthLWNsdXN0ZXIlM0FDb25uZWN0JlVzZXItQWdlbnQ9YXdzLW1zay1pYW0tc2FzbC1zaWduZXItZ28lMkYxLjAuNCUyRmdvMS4yMCZYLUFtei1BbGdvcml0aG09QVdTNC1ITUFDLVNIQTI1NiZYLUFtei1FeHBpcmVzPTkwMCZYLUFtei1TaWduYXR1cmU9MDA''"
  by (simp add: base64Encode_def sextet_def encodeURL_def byte_of_def)


lemma signRequest_testEnv:
  "signRequest testEnv testRequest TestRegion (Some mockCreds) stLoaded =
     (Returns (''https://kafka.us-west-2.amazonaws.com/?Action=kafka-cluster%3AConnect&X-Amz-Expires=900&X-Amz-Algorithm=AWS4-HMAC-SHA256&X-Amz-Signature=00'', None), stSigned)"
  by (simp add: signRequest_def perform_def testEnv_def mockPresign_def testRequest_def
        stLoaded_def stSigned_def st0_def str_eval esc_eval print_eval)

lemma generate_testEnv:
  "generate testEnv TestRegion DefaultChain st0 = (Returns (''aHR0cHM6Ly9rYWZrYS51cy13ZXN0LTIuYW1hem9uYXdzLmNvbS8_QWN0aW9uPWthZmthLWNsdXN0ZXIlM0FDb25uZWN0JlVzZXItQWdlbnQ9YXdzLW1zay1pYW0tc2FzbC1zaWduZXItZ28lMkYxLjAuNCUyRmdvMS4yMCZYLUFtei1BbGdvcml0aG09QVdTNC1ITUFDLVNIQTI1NiZYLUFtei1FeHBpcmVzPTkwMCZYLUFtei1TaWduYXR1cmU9MDA'', None), stSigned)"
proof -
  have l: "LoadDefaultConfig testEnv = mockLoad" by (simp add: testEnv_def)
  have b: "buildInfo testEnv = testBuild" by (simp add: testEnv_def)
  show ?thesis
    by (simp add: generate_resolve resolve_default[OF l, of TestRegion, folded stLoaded_def]
          constructAuthToken_def buildRequest_TestEndpoint[folded testRequest_def]
          signRequest_testEnv b addUserAgent_signed base64_signed)
qed


text \<open>
  C1, as the code has it. An entry point that succeeds returns two results, the token and a
  nil error, and no expiration instant. The credentials were loaded; the request that was
  built is a GET request with the query \<^verbatim>\<open>Action=kafka-cluster%3AConnect&X-Amz-Expires=900\<close>,
  which is where the expiry window of 900 seconds is carried; the clock was read and the signer
  called with that request at that time, as the last two outside calls; and the token is the
  base64 encoding of the URL the signer returned, with the user agent added.
\<close>

theorem entry_points_return_token:
  assumes "generate env region strat st = (Returns (tok, None), st')"
  shows "results (fst (generate env region strat st)) = [GoString tok, GoError None]
     \<and> (\<exists>creds st1 req now w1 signedURL w2 url'.
           resolve env region strat st = (Returns (Some creds, None), st1)
         \<and> buildRequest DefaultExpirySeconds (endpointURL region) = (Some req, None)
         \<and> Method req = ''GET''
         \<and> RawQuery (ReqURL req) = ''Action=kafka-cluster%3AConnect&X-Amz-Expires=900''
         \<and> Now env (world st1) = (now, w1)
         \<and> PresignHTTP env creds req (calculateSHA256Hash []) SigningName region now w1
              = ((signedURL, None), w2)
         \<and> calls st' = calls st1
              @ [CallNow, CallPresignHTTP creds req (calculateSHA256Hash []) SigningName region now]
         \<and> addUserAgent (buildInfo env) signedURL = Returns (url', None)
         \<and> tok = base64Encode url')"
proof
  show "results (fst (generate env region strat st)) = [GoString tok, GoError None]"
    using assms by simp
  obtain r st1 where r: "resolve env region strat st = (r, st1)"
    by (cases "resolve env region strat st")
  with assms obtain c where c: "r = Returns (c, None)"
    and g: "constructAuthToken env region c st1 = (Returns (tok, None), st')"
    by (auto simp: generate_resolve split: outcome.splits option.splits prod.splits)
  from constructAuthToken_success[OF g]
  obtain creds req now w1 signedURL w2 url' where s:
    "c = Some creds"
    "buildRequest DefaultExpirySeconds (endpointURL region) = (Some req, None)"
    "Now env (world st1) = (now, w1)"
    "PresignHTTP env creds req (calculateSHA256Hash []) SigningName region now w1 = ((signedURL, None), w2)"
    "addUserAgent (buildInfo env) signedURL = Returns (url', None)"
    "tok = base64Encode url'"
    "st' = st1\<lparr>world := w2, calls := calls st1 @ [CallNow,
                CallPresignHTTP creds req (calculateSHA256Hash []) SigningName region now]\<rparr>"
    by blast
  have f: "strconv_FormatInt DefaultExpirySeconds = ''900''"
    by (simp add: DefaultExpirySeconds_def FormatInt_900)
  from buildRequest_query[OF s(2)] f
  have q: "Method req = ''GET''"
    "RawQuery (ReqURL req) = ''Action=kafka-cluster%3AConnect&X-Amz-Expires=900''"
    by simp_all
  from s(7) have cs: "calls st' = calls st1
              @ [CallNow, CallPresignHTTP creds req (calculateSHA256Hash []) SigningName region now]"
    by simp
  from r c s q cs
  show "\<exists>creds st1 req now w1 signedURL w2 url'.
           resolve env region strat st = (Returns (Some creds, None), st1)
         \<and> buildRequest DefaultExpirySeconds (endpointURL region) = (Some req, None)
         \<and> Method req = ''GET''
         \<and> RawQuery (ReqURL req) = ''Action=kafka-cluster%3AConnect&X-Amz-Expires=900''
         \<and> Now env (world st1) = (now, w1)
         \<and> PresignHTTP env creds req (calculateSHA256Hash []) SigningName region now w1
              = ((signedURL, None), w2)
         \<and> calls st' = calls st1
              @ [CallNow, CallPresignHTTP creds req (calculateSHA256Hash []) SigningName region now]
         \<and> addUserAgent (buildInfo env) signedURL = Returns (url', None)
         \<and> tok = base64Encode url'"
    by blast
qed

text \<open>The default chain on the test doubles.\<close>

theorem entry_points_return_token_witness:
  "results (fst (generate testEnv TestRegion DefaultChain st0)) =
     [GoString ''aHR0cHM6Ly9rYWZrYS51cy13ZXN0LTIuYW1hem9uYXdzLmNvbS8_QWN0aW9uPWthZmthLWNsdXN0ZXIlM0FDb25uZWN0JlVzZXItQWdlbnQ9YXdzLW1zay1pYW0tc2FzbC1zaWduZXItZ28lMkYxLjAuNCUyRmdvMS4yMCZYLUFtei1BbGdvcml0aG09QVdTNC1ITUFDLVNIQTI1NiZYLUFtei1FeHBpcmVzPTkwMCZYLUFtei1TaWduYXR1cmU9MDA'', GoError None]"
  using entry_points_return_token[OF generate_testEnv] by blast


text \<open>
  C1 as stated fails. On the test doubles, at the time \<open>1700000000\<close>, the results of
  \<open>GenerateAuthToken\<close> are the token and the nil error; the expiration instant of the
  specification, \<open>1700000900\<close>, is not among them.
\<close>

theorem no_expiration_result_counterexample:
  "world st0 = 1700000000
   \<and> results (fst (generate testEnv TestRegion DefaultChain st0)) =
       [GoString ''aHR0cHM6Ly9rYWZrYS51cy13ZXN0LTIuYW1hem9uYXdzLmNvbS8_QWN0aW9uPWthZmthLWNsdXN0ZXIlM0FDb25uZWN0JlVzZXItQWdlbnQ9YXdzLW1zay1pYW0tc2FzbC1zaWduZXItZ28lMkYxLjAuNCUyRmdvMS4yMCZYLUFtei1BbGdvcml0aG09QVdTNC1ITUFDLVNIQTI1NiZYLUFtei1FeHBpcmVzPTkwMCZYLUFtei1TaWduYXR1cmU9MDA'', GoError None]
   \<and> GoInstant (expiration_spec 1700000000)
       \<notin> set (results (fst (generate testEnv TestRegion DefaultChain st0)))"
  by (simp add: generate_testEnv) (simp add: st0_def)



end
